theory Spec2Isabelle
  imports Main "HOL-Library.Word" "HOL-Library.Sublist"
begin

section \<open>JavaScript strings\<close>

text \<open>
  A JavaScript string is a sequence of 16-bit code units. String literals of
  \<^verbatim>\<open>main.ts\<close> are ASCII; \<open>js\<close> turns an ASCII literal into code units.
\<close>

type_synonym jschar = "16 word"
type_synonym jsstring = "jschar list"

definition js :: "string \<Rightarrow> jsstring" where
  "js s = map (\<lambda>c. of_nat (of_char c)) s"

definition BACKSLASH :: jschar where "BACKSLASH = 0x5C"
definition QUOTE :: jschar where "QUOTE = 0x22"
definition DOLLAR :: jschar where "DOLLAR = 0x24"
definition LF :: jschar where "LF = 0x0A"

text \<open>
  \<^verbatim>\<open>String.prototype.trim\<close> strips the code units that ECMAScript calls WhiteSpace
  or LineTerminator from both ends.
\<close>

definition isWhiteSpace :: "jschar \<Rightarrow> bool" where
  "isWhiteSpace c =
     (c = 0x09 \<or> c = 0x0A \<or> c = 0x0B \<or> c = 0x0C \<or> c = 0x0D \<or> c = 0x20 \<or>
      c = 0xA0 \<or> c = 0x1680 \<or> (0x2000 \<le> c \<and> c \<le> 0x200A) \<or> c = 0x2028 \<or>
      c = 0x2029 \<or> c = 0x202F \<or> c = 0x205F \<or> c = 0x3000 \<or> c = 0xFEFF)"

definition trim :: "jsstring \<Rightarrow> jsstring" where
  "trim s = rev (dropWhile isWhiteSpace (rev (dropWhile isWhiteSpace s)))"

text \<open>\<^verbatim>\<open>s.split(sep)\<close> for a separator of one code unit: never an empty list.\<close>

fun split_on :: "jschar \<Rightarrow> jsstring \<Rightarrow> jsstring list" where
  "split_on sep [] = [[]]"
| "split_on sep (c # cs) =
     (if c = sep then [] # split_on sep cs
      else (case split_on sep cs of
              [] \<Rightarrow> [[c]]
            | l # ls \<Rightarrow> (c # l) # ls))"

text \<open>\<^verbatim>\<open>s.includes(pat)\<close> and the index of the first occurrence of \<open>pat\<close> in \<open>s\<close>.\<close>

fun str_includes :: "jsstring \<Rightarrow> jsstring \<Rightarrow> bool" where
  "str_includes [] pat = (pat = [])"
| "str_includes (c # cs) pat = (prefix pat (c # cs) \<or> str_includes cs pat)"

fun indexOf :: "jsstring \<Rightarrow> jsstring \<Rightarrow> nat option" where
  "indexOf [] pat = (if pat = [] then Some 0 else None)"
| "indexOf (c # cs) pat =
     (if prefix pat (c # cs) then Some 0 else map_option Suc (indexOf cs pat))"

text \<open>
  The replacement text of \<^verbatim>\<open>String.prototype.replace\<close> is a template (ECMAScript's
  GetSubstitution): \<^verbatim>\<open>$$\<close> stands for a dollar sign, \<^verbatim>\<open>$&\<close> for the matched text,
  \<^verbatim>\<open>$`\<close> for the text before the match and \<^verbatim>\<open>$'\<close> for the text after it. Neither
  pattern of \<^verbatim>\<open>main.ts\<close> has a capture group, so \<^verbatim>\<open>$1\<close> and the like stay as they
  are, and so does every other use of the dollar sign.
\<close>

fun getSubstitution :: "jsstring \<Rightarrow> jsstring \<Rightarrow> nat \<Rightarrow> jsstring \<Rightarrow> jsstring" where
  "getSubstitution matched str position [] = []"
| "getSubstitution matched str position [c] = [c]"
| "getSubstitution matched str position (c # d # t) =
     (if c = DOLLAR then
        (if d = DOLLAR then DOLLAR # getSubstitution matched str position t
         else if d = 0x26 then matched @ getSubstitution matched str position t
         else if d = 0x60 then take position str @ getSubstitution matched str position t
         else if d = 0x27 then
           drop (position + length matched) str @ getSubstitution matched str position t
         else DOLLAR # getSubstitution matched str position (d # t))
      else c # getSubstitution matched str position (d # t))"

text \<open>\<^verbatim>\<open>s.replace(pat, replacement)\<close> with a string pattern: the first occurrence only.\<close>

definition replace_string :: "jsstring \<Rightarrow> jsstring \<Rightarrow> jsstring \<Rightarrow> jsstring" where
  "replace_string s pat replacement =
     (case indexOf s pat of
        None \<Rightarrow> s
      | Some p \<Rightarrow>
          take p s @ getSubstitution pat s p replacement @ drop (p + length pat) s)"

text \<open>
  \<^verbatim>\<open>s.replace(/c/g, replacement)\<close> for a regular expression that matches the single
  code unit \<open>c\<close>: every occurrence, each through GetSubstitution at its position.
\<close>

fun replace_from :: "jschar \<Rightarrow> jsstring \<Rightarrow> jsstring \<Rightarrow> nat \<Rightarrow> jsstring \<Rightarrow> jsstring" where
  "replace_from c replacement str position [] = []"
| "replace_from c replacement str position (x # xs) =
     (if x = c then getSubstitution [c] str position replacement else [x])
       @ replace_from c replacement str (Suc position) xs"

definition replace_global :: "jsstring \<Rightarrow> jschar \<Rightarrow> jsstring \<Rightarrow> jsstring" where
  "replace_global s c replacement = replace_from c replacement s 0 s"

text \<open>A non-negative integer in a template literal: its decimal digits.\<close>

fun decimal :: "nat \<Rightarrow> jsstring" where
  "decimal n =
     (if n < 10 then [of_nat (48 + n)]
      else decimal (n div 10) @ [of_nat (48 + n mod 10)])"

declare decimal.simps [simp del]

section \<open>JSON.parse\<close>

text \<open>
  The values \<^verbatim>\<open>JSON.parse\<close> returns. A number is kept as the exact decimal value of
  its literal, mantissa and power of ten (\<open>JNum m e\<close> is \<open>m * 10 ^ e\<close>); an object keeps
  its members in the order of the text, duplicates included.
\<close>

datatype json =
    JNull
  | JBool bool
  | JNum int int
  | JStr jsstring
  | JArr "json list"
  | JObj "(jsstring \<times> json) list"

datatype builtin_error = SyntaxError | TypeError

definition isJSONWhiteSpace :: "jschar \<Rightarrow> bool" where
  "isJSONWhiteSpace c = (c = 0x09 \<or> c = 0x0A \<or> c = 0x0D \<or> c = 0x20)"

definition isDigit :: "jschar \<Rightarrow> bool" where
  "isDigit c = (0x30 \<le> c \<and> c \<le> 0x39)"

definition digits_value :: "jsstring \<Rightarrow> nat" where
  "digits_value ds = foldl (\<lambda>a c. 10 * a + (unat c - 48)) 0 ds"

definition hex_value :: "jschar \<Rightarrow> nat option" where
  "hex_value c =
     (if 0x30 \<le> c \<and> c \<le> 0x39 then Some (unat c - 48)
      else if 0x41 \<le> c \<and> c \<le> 0x46 then Some (unat c - 55)
      else if 0x61 \<le> c \<and> c \<le> 0x66 then Some (unat c - 87)
      else None)"

text \<open>The text after a backslash inside a string: the code unit it stands for, and the rest.\<close>

fun lex_escape :: "jsstring \<Rightarrow> (jschar \<times> jsstring) option" where
  "lex_escape [] = None"
| "lex_escape (e # r) =
     (if e = 0x22 \<or> e = 0x5C \<or> e = 0x2F then Some (e, r)
      else if e = 0x62 then Some (0x08, r)
      else if e = 0x66 then Some (0x0C, r)
      else if e = 0x6E then Some (0x0A, r)
      else if e = 0x72 then Some (0x0D, r)
      else if e = 0x74 then Some (0x09, r)
      else if e = 0x75 then
        (case r of
           h1 # h2 # h3 # h4 # r' \<Rightarrow>
             Option.bind (hex_value h1) (\<lambda>a.
             Option.bind (hex_value h2) (\<lambda>b.
             Option.bind (hex_value h3) (\<lambda>c.
             Option.bind (hex_value h4) (\<lambda>d.
               Some (of_nat (((a * 16 + b) * 16 + c) * 16 + d), r')))))
         | _ \<Rightarrow> None)
      else None)"

lemma lex_escape_shorter: "lex_escape cs = Some (x, r) \<Longrightarrow> length r < length cs"
  by (cases cs) (auto split: if_splits list.splits Option.bind_splits)

text \<open>The text after an opening quote: the string's value, and the rest after the closing quote.\<close>

function lex_string :: "jsstring \<Rightarrow> (jsstring \<times> jsstring) option" where
  "lex_string [] = None"
| "lex_string (c # cs) =
     (if c = QUOTE then Some ([], cs)
      else if c = BACKSLASH then
        (case lex_escape cs of
           None \<Rightarrow> None
         | Some (x, r) \<Rightarrow> map_option (\<lambda>(v, rest). (x # v, rest)) (lex_string r))
      else if c < 0x20 then None
      else map_option (\<lambda>(v, rest). (c # v, rest)) (lex_string cs))"
  by pat_completeness auto
termination
  by (relation "measure length") (auto dest: lex_escape_shorter)

text \<open>
  A number literal: an optional minus sign, an integer part without a leading zero
  (or the single digit 0), an optional fraction and an optional exponent.
\<close>

definition lex_int :: "jsstring \<Rightarrow> (jsstring \<times> jsstring) option" where
  "lex_int s =
     (case s of
        [] \<Rightarrow> None
      | d # r \<Rightarrow>
          if d = 0x30 then Some ([d], r)
          else if isDigit d then Some (takeWhile isDigit s, dropWhile isDigit s)
          else None)"

definition lex_frac :: "jsstring \<Rightarrow> (jsstring \<times> jsstring) option" where
  "lex_frac s =
     (case s of
        [] \<Rightarrow> Some ([], s)
      | c # r \<Rightarrow>
          if c = 0x2E then
            (if takeWhile isDigit r = [] then None
             else Some (takeWhile isDigit r, dropWhile isDigit r))
          else Some ([], s))"

definition lex_sign :: "jsstring \<Rightarrow> int \<times> jsstring" where
  "lex_sign s =
     (case s of
        [] \<Rightarrow> (1, s)
      | c # r \<Rightarrow> if c = 0x2B then (1, r) else if c = 0x2D then (- 1, r) else (1, s))"

definition lex_exp :: "jsstring \<Rightarrow> (int \<times> jsstring) option" where
  "lex_exp s =
     (case s of
        [] \<Rightarrow> Some (0, s)
      | c # r \<Rightarrow>
          if c = 0x65 \<or> c = 0x45 then
            (case lex_sign r of
               (sg, r1) \<Rightarrow>
                 if takeWhile isDigit r1 = [] then None
                 else Some (sg * int (digits_value (takeWhile isDigit r1)),
                            dropWhile isDigit r1))
          else Some (0, s))"

definition lex_number :: "jsstring \<Rightarrow> (json \<times> jsstring) option" where
  "lex_number s =
     (case (case s of [] \<Rightarrow> (1, s) | c # r \<Rightarrow> if c = 0x2D then (- 1, r) else (1::int, s)) of
        (sg, s1) \<Rightarrow>
          Option.bind (lex_int s1) (\<lambda>(ip, s2).
          Option.bind (lex_frac s2) (\<lambda>(fp, s3).
          Option.bind (lex_exp s3) (\<lambda>(ex, s4).
            Some (JNum (sg * int (digits_value (ip @ fp))) (ex - int (length fp)), s4)))))"

lemma lex_string_shorter: "lex_string cs = Some (v, rest) \<Longrightarrow> length rest < length cs"
proof (induction cs arbitrary: v rule: lex_string.induct)
  case 1
  then show ?case by simp
next
  case (2 c cs)
  then show ?case
    by (fastforce split: if_splits option.splits dest: lex_escape_shorter)
qed

lemma lex_int_shorter: "lex_int s = Some (ip, r) \<Longrightarrow> length r < length s"
  by (cases s) (auto simp: lex_int_def le_imp_less_Suc length_dropWhile_le split: if_splits)

lemma lex_frac_shorter: "lex_frac s = Some (fp, r) \<Longrightarrow> length r \<le> length s"
  by (cases s) (auto simp: lex_frac_def le_SucI length_dropWhile_le split: if_splits)

lemma lex_sign_shorter: "lex_sign s = (sg, r) \<Longrightarrow> length r \<le> length s"
  by (cases s) (auto simp: lex_sign_def split: if_splits)

lemma lex_exp_shorter: "lex_exp s = Some (ex, r) \<Longrightarrow> length r \<le> length s"
proof (cases s)
  case Nil
  assume "lex_exp s = Some (ex, r)"
  with Nil show ?thesis by (simp add: lex_exp_def)
next
  case (Cons c t)
  assume h: "lex_exp s = Some (ex, r)"
  show ?thesis
  proof (cases "c = 0x65 \<or> c = 0x45")
    case False
    with h Cons show ?thesis by (simp add: lex_exp_def)
  next
    case True
    obtain sg r1 where sr: "lex_sign t = (sg, r1)" by (cases "lex_sign t")
    from h Cons True sr have "r = dropWhile isDigit r1"
      by (auto simp: lex_exp_def split: if_splits)
    moreover have "length (dropWhile isDigit r1) \<le> length r1" by (rule length_dropWhile_le)
    moreover from sr have "length r1 \<le> length t" by (rule lex_sign_shorter)
    ultimately show ?thesis using Cons by simp
  qed
qed

lemma lex_number_shorter: "lex_number s = Some (v, rest) \<Longrightarrow> length rest < length s"
proof -
  assume h: "lex_number s = Some (v, rest)"
  obtain sg s1 where s1: "(case s of [] \<Rightarrow> (1, s) | c # r \<Rightarrow> if c = 0x2D then (- 1, r) else (1::int, s)) = (sg, s1)"
    by (cases "(case s of [] \<Rightarrow> (1, s) | c # r \<Rightarrow> if c = 0x2D then (- 1, r) else (1::int, s))")
  then have l1: "length s1 \<le> length s"
    by (cases s) (auto split: if_splits)
  from h s1 obtain ip s2 fp s3 ex where
    a: "lex_int s1 = Some (ip, s2)" and b: "lex_frac s2 = Some (fp, s3)"
    and c: "lex_exp s3 = Some (ex, rest)"
    by (auto simp: lex_number_def split: Option.bind_splits)
  from a have "length s2 < length s1" by (rule lex_int_shorter)
  moreover from b have "length s3 \<le> length s2" by (rule lex_frac_shorter)
  moreover from c have "length rest \<le> length s3" by (rule lex_exp_shorter)
  ultimately show ?thesis using l1 by simp
qed

datatype token = LBrace | RBrace | LBracket | RBracket | Colon | Comma | Literal json

function tokenize :: "jsstring \<Rightarrow> token list option" where
  "tokenize [] = Some []"
| "tokenize (c # cs) =
     (if isJSONWhiteSpace c then tokenize cs
      else if c = 0x7B then map_option ((#) LBrace) (tokenize cs)
      else if c = 0x7D then map_option ((#) RBrace) (tokenize cs)
      else if c = 0x5B then map_option ((#) LBracket) (tokenize cs)
      else if c = 0x5D then map_option ((#) RBracket) (tokenize cs)
      else if c = 0x3A then map_option ((#) Colon) (tokenize cs)
      else if c = 0x2C then map_option ((#) Comma) (tokenize cs)
      else if c = QUOTE then
        (case lex_string cs of
           None \<Rightarrow> None
         | Some (v, rest) \<Rightarrow> map_option ((#) (Literal (JStr v))) (tokenize rest))
      else if c = 0x2D \<or> isDigit c then
        (case lex_number (c # cs) of
           None \<Rightarrow> None
         | Some (v, rest) \<Rightarrow> map_option ((#) (Literal v)) (tokenize rest))
      else if prefix (js ''null'') (c # cs) then
        map_option ((#) (Literal JNull)) (tokenize (drop 3 cs))
      else if prefix (js ''true'') (c # cs) then
        map_option ((#) (Literal (JBool True))) (tokenize (drop 3 cs))
      else if prefix (js ''false'') (c # cs) then
        map_option ((#) (Literal (JBool False))) (tokenize (drop 4 cs))
      else None)"
  by pat_completeness auto
termination
proof (relation "measure length", goal_cases)
  case 1
  show ?case by simp
next
  case (9 c cs x2 x y)
  then show ?case using lex_string_shorter [of cs x y] by simp
next
  case (10 c cs x2 x y)
  then show ?case using lex_number_shorter [of "c # cs" x y] by simp
qed simp_all

text \<open>
  The grammar, over the tokens: a stack of the arrays and objects that are open, each
  with what it holds so far, and what may come next.
\<close>

datatype frame = ArrFrame "json list" | ObjFrame "(jsstring \<times> json) list" jsstring

datatype pstate =
    PValue "frame list"
  | PArrOpen "frame list"
  | PObjOpen "frame list"
  | PKey "(jsstring \<times> json) list" "frame list"
  | PColon "(jsstring \<times> json) list" jsstring "frame list"
  | PDone json "frame list"

fun step_value :: "frame list \<Rightarrow> token \<Rightarrow> pstate option" where
  "step_value st (Literal v) = Some (PDone v st)"
| "step_value st LBracket = Some (PArrOpen st)"
| "step_value st LBrace = Some (PObjOpen st)"
| "step_value st _ = None"

fun step_key :: "(jsstring \<times> json) list \<Rightarrow> frame list \<Rightarrow> token \<Rightarrow> pstate option" where
  "step_key ms st (Literal (JStr k)) = Some (PColon ms k st)"
| "step_key ms st _ = None"

fun step :: "pstate \<Rightarrow> token \<Rightarrow> pstate option" where
  "step (PValue st) t = step_value st t"
| "step (PArrOpen st) t =
     (if t = RBracket then Some (PDone (JArr []) st) else step_value (ArrFrame [] # st) t)"
| "step (PObjOpen st) t =
     (if t = RBrace then Some (PDone (JObj []) st) else step_key [] st t)"
| "step (PKey ms st) t = step_key ms st t"
| "step (PColon ms k st) t =
     (if t = Colon then Some (PValue (ObjFrame ms k # st)) else None)"
| "step (PDone v []) t = None"
| "step (PDone v (ArrFrame es # st)) t =
     (if t = Comma then Some (PValue (ArrFrame (es @ [v]) # st))
      else if t = RBracket then Some (PDone (JArr (es @ [v])) st)
      else None)"
| "step (PDone v (ObjFrame ms k # st)) t =
     (if t = Comma then Some (PKey (ms @ [(k, v)]) st)
      else if t = RBrace then Some (PDone (JObj (ms @ [(k, v)])) st)
      else None)"

fun parse_tokens :: "pstate \<Rightarrow> token list \<Rightarrow> json option" where
  "parse_tokens (PDone v []) [] = Some v"
| "parse_tokens s [] = None"
| "parse_tokens s (t # ts) =
     (case step s t of None \<Rightarrow> None | Some s' \<Rightarrow> parse_tokens s' ts)"

text \<open>\<^verbatim>\<open>JSON.parse(text)\<close>: the value, or the SyntaxError it throws.\<close>

definition JSON_parse :: "jsstring \<Rightarrow> builtin_error + json" where
  "JSON_parse text =
     (case tokenize text of
        None \<Rightarrow> Inl SyntaxError
      | Some ts \<Rightarrow>
          (case parse_tokens (PValue []) ts of
             None \<Rightarrow> Inl SyntaxError
           | Some v \<Rightarrow> Inr v))"

section \<open>What the program does with a parsed value\<close>

text \<open>
  \<^verbatim>\<open>data.response\<close>: reading a property of \<^verbatim>\<open>null\<close> throws a TypeError; an object
  gives the member of that name, the last one where the text repeats it, or
  \<^verbatim>\<open>undefined\<close> (\<open>None\<close>) when it has none; a number, a string, a boolean and an array
  have no property of that name and give \<^verbatim>\<open>undefined\<close>.
\<close>

fun response_of :: "json \<Rightarrow> builtin_error + json option" where
  "response_of JNull = Inl TypeError"
| "response_of (JObj ms) = Inr (map_of (rev ms) (js ''response''))"
| "response_of _ = Inr None"

text \<open>
  The condition \<^verbatim>\<open>if (data.response)\<close>, which \<^verbatim>\<open>undefined\<close> fails. The Number value of a literal is the double
  nearest to its decimal value, which is zero exactly when that value is at most
  \<open>2 ^ -1075\<close> in magnitude.
\<close>

definition number_nonzero :: "int \<Rightarrow> int \<Rightarrow> bool" where
  "number_nonzero m e =
     (if 0 \<le> e then m \<noteq> 0 else 10 ^ nat (- e) < \<bar>m\<bar> * 2 ^ 1075)"

fun truthy :: "json \<Rightarrow> bool" where
  "truthy JNull = False"
| "truthy (JBool b) = b"
| "truthy (JNum m e) = number_nonzero m e"
| "truthy (JStr s) = (s \<noteq> [])"
| "truthy (JArr xs) = True"
| "truthy (JObj ms) = True"

text \<open>
  \<^verbatim>\<open>latexEquation += data.response\<close> appends the value as a string. How a Number
  prints is left to the platform (\<open>num\<close>): it is floating-point formatting. An array
  prints as its elements joined by commas, \<^verbatim>\<open>null\<close> among them as nothing. An object
  prints through the \<^verbatim>\<open>toString\<close> it inherits, unless it has a member of that name
  itself: the member is not a function, no other conversion is left, and the
  conversion throws a TypeError. That holds for an object at the top and for one
  inside an array.
\<close>

fun intercalate :: "jsstring \<Rightarrow> jsstring list \<Rightarrow> jsstring" where
  "intercalate sep [] = []"
| "intercalate sep [x] = x"
| "intercalate sep (x # y # ys) = x @ sep @ intercalate sep (y # ys)"

fun collect :: "(builtin_error + 'a) list \<Rightarrow> builtin_error + 'a list" where
  "collect [] = Inr []"
| "collect (Inl err # rs) = Inl err"
| "collect (Inr x # rs) =
     (case collect rs of Inl err \<Rightarrow> Inl err | Inr xs \<Rightarrow> Inr (x # xs))"

fun ToString :: "(int \<Rightarrow> int \<Rightarrow> jsstring) \<Rightarrow> json \<Rightarrow> builtin_error + jsstring" where
  "ToString num JNull = Inr (js ''null'')"
| "ToString num (JBool b) = Inr (if b then js ''true'' else js ''false'')"
| "ToString num (JNum m e) = Inr (num m e)"
| "ToString num (JStr s) = Inr s"
| "ToString num (JArr xs) =
     (case collect (map (\<lambda>x. if x = JNull then Inr [] else ToString num x) xs) of
        Inl err \<Rightarrow> Inl err
      | Inr strs \<Rightarrow> Inr (intercalate (js '','') strs))"
| "ToString num (JObj ms) =
     (if js ''toString'' \<in> set (map fst ms) then Inl TypeError
      else Inr (js ''[object Object]''))"

section \<open>Number::toString\<close>

text \<open>
  How ECMAScript prints the Number value of the literal \<open>m * 10 ^ e\<close>: the literal is
  rounded to a double, and the double is printed with the fewest digits that give it
  back, in plain or in exponent form depending on its size.
\<close>

function digits :: "int \<Rightarrow> jsstring" where
  "digits n =
     (if n < 10 then [of_int (48 + n)] else digits (n div 10) @ [of_int (48 + n mod 10)])"
  by pat_completeness auto
termination
  by (relation "measure nat") auto

declare digits.simps [simp del]

text \<open>The fraction \<open>a / b\<close> divided by \<open>2 ^ k\<close> and by \<open>10 ^ k\<close>, for \<open>k\<close> of either sign.\<close>

definition scale2 :: "int \<Rightarrow> int \<Rightarrow> int \<Rightarrow> int \<times> int" where
  "scale2 a b k = (if 0 \<le> k then (a, b * 2 ^ nat k) else (a * 2 ^ nat (- k), b))"

definition scale10 :: "int \<Rightarrow> int \<Rightarrow> int \<Rightarrow> int \<times> int" where
  "scale10 a b k = (if 0 \<le> k then (a, b * 10 ^ nat k) else (a * 10 ^ nat (- k), b))"

definition round_half_even :: "int \<Rightarrow> int \<Rightarrow> int" where
  "round_half_even n d =
     (if 2 * (n mod d) < d then n div d
      else if d < 2 * (n mod d) then n div d + 1
      else if even (n div d) then n div d else n div d + 1)"

text \<open>
  A double that is not negative: zero, infinity, or \<open>Finite r p\<close> for \<open>r * 2 ^ p\<close>. The
  Number value of the positive fraction \<open>a / b\<close> is the double nearest to it, the one
  with the even significand when two are as near.
\<close>

datatype double = Zero | Infinity | Finite int int

definition to_double :: "int \<Rightarrow> int \<Rightarrow> double" where
  "to_double a b =
     (case find (\<lambda>E. (case scale2 a b (E + 1) of (n, d) \<Rightarrow> n < d)) [- 1100 .. 1100] of
        None \<Rightarrow> Infinity
      | Some E \<Rightarrow>
          (let p = max (E - 52) (- 1074);
               r = (case scale2 a b p of (n, d) \<Rightarrow> round_half_even n d)
           in if r = 0 then Zero
              else if (case scale2 r 1 (1024 - p) of (n, d) \<Rightarrow> d \<le> n) then Infinity
              else Finite r p))"

definition same_double :: "double \<Rightarrow> int \<Rightarrow> int \<Rightarrow> bool" where
  "same_double x r p =
     (case x of
        Finite r' p' \<Rightarrow> (if p \<le> p' then r' * 2 ^ nat (p' - p) = r else r' = r * 2 ^ nat (p - p'))
      | _ \<Rightarrow> False)"

text \<open>The double \<open>r * 2 ^ p\<close> as a fraction, and the \<open>n\<close> with \<open>10 ^ (n - 1) \<le> a / b < 10 ^ n\<close>.\<close>
definition fraction :: "int \<Rightarrow> int \<Rightarrow> int \<times> int" where
  "fraction r p = (if 0 \<le> p then (r * 2 ^ nat p, 1) else (r, 2 ^ nat (- p)))"

definition decimal_exponent :: "int \<Rightarrow> int \<Rightarrow> int" where
  "decimal_exponent a b =
     (case find (\<lambda>n. (case scale10 a b n of (x, y) \<Rightarrow> x < y)) [- 330 .. 310] of
        None \<Rightarrow> 310 | Some n \<Rightarrow> n)"

text \<open>
  The digits \<open>s\<close> and the exponent \<open>n\<close> for \<open>k\<close> digits, when some \<open>s * 10 ^ (n - k)\<close> has
  the double as its Number value: the nearer of the two around it, the even one when
  both are as near. The fewest digits that do are the ones printed.
\<close>
definition digits_of_length :: "int \<Rightarrow> int \<Rightarrow> int \<Rightarrow> (int \<times> int) option" where
  "digits_of_length r p k =
     (case fraction r p of (a, b) \<Rightarrow>
        let n = decimal_exponent a b in
        (case scale10 a b (n - k) of (x, y) \<Rightarrow>
           let lo = x div y;
               hi = lo + 1;
               good = (\<lambda>s. case scale10 s 1 (k - n) of (u, v) \<Rightarrow> same_double (to_double u v) r p);
               pick = (\<lambda>s. if s = 10 ^ nat k then Some (10 ^ nat (k - 1), n + 1) else Some (s, n))
           in if good lo \<and> good hi then
                (if 2 * (x mod y) < y then pick lo
                 else if y < 2 * (x mod y) then pick hi
                 else if even lo then pick lo else pick hi)
              else if good lo then pick lo
              else if good hi then pick hi
              else None))"

definition shortest :: "int \<Rightarrow> int \<Rightarrow> int \<times> int" where
  "shortest r p =
     (case List.map_filter (digits_of_length r p) [1 .. 17] of
        [] \<Rightarrow> (0, 0)
      | sn # _ \<Rightarrow> sn)"

definition format :: "int \<Rightarrow> int \<Rightarrow> jsstring" where
  "format s n =
     (let ds = digits s; k = int (length ds) in
      if k \<le> n \<and> n \<le> 21 then ds @ replicate (nat (n - k)) 0x30
      else if 0 < n \<and> n \<le> 21 then take (nat n) ds @ js ''.'' @ drop (nat n) ds
      else if - 6 < n \<and> n \<le> 0 then js ''0.'' @ replicate (nat (- n)) 0x30 @ ds
      else (if k = 1 then ds else take 1 ds @ js ''.'' @ drop 1 ds)
           @ js ''e'' @ (if n - 1 < 0 then js ''-'' else js ''+'') @ decimal (nat \<bar>n - 1\<bar>))"

definition Number_toString :: "int \<Rightarrow> int \<Rightarrow> jsstring" where
  "Number_toString m e =
     (case (case scale10 \<bar>m\<bar> 1 (- e) of (a, b) \<Rightarrow> to_double a b) of
        Zero \<Rightarrow> js ''0''
      | Infinity \<Rightarrow> (if m < 0 then js ''-'' else []) @ js ''Infinity''
      | Finite r p \<Rightarrow>
          (if m < 0 then js ''-'' else []) @ (case shortest r p of (s, n) \<Rightarrow> format s n))"

section \<open>TextDecoder\<close>

text \<open>
  \<^verbatim>\<open>new TextDecoder().decode(value)\<close>: UTF-8, each malformed sequence replaced by
  U+FFFD, a byte order mark at the start dropped, code points above U+FFFF written as
  surrogate pairs. The decoder is a new one for every chunk, so it keeps nothing from
  one chunk to the next.
\<close>

type_synonym byte = "8 word"

record utf8_state =
  code_point :: int
  bytes_seen :: nat
  bytes_needed :: nat
  lower_boundary :: int
  upper_boundary :: int

definition utf8_initial :: utf8_state where
  "utf8_initial =
     \<lparr>code_point = 0, bytes_seen = 0, bytes_needed = 0,
      lower_boundary = 0x80, upper_boundary = 0xBF\<rparr>"

definition utf8_lead :: "int \<Rightarrow> int list \<times> utf8_state" where
  "utf8_lead b =
     (if b \<le> 0x7F then ([b], utf8_initial)
      else if 0xC2 \<le> b \<and> b \<le> 0xDF then
        ([], utf8_initial\<lparr>bytes_needed := 1, code_point := b mod 32\<rparr>)
      else if 0xE0 \<le> b \<and> b \<le> 0xEF then
        ([], utf8_initial\<lparr>bytes_needed := 2, code_point := b mod 16,
               lower_boundary := (if b = 0xE0 then 0xA0 else 0x80),
               upper_boundary := (if b = 0xED then 0x9F else 0xBF)\<rparr>)
      else if 0xF0 \<le> b \<and> b \<le> 0xF4 then
        ([], utf8_initial\<lparr>bytes_needed := 3, code_point := b mod 8,
               lower_boundary := (if b = 0xF0 then 0x90 else 0x80),
               upper_boundary := (if b = 0xF4 then 0x8F else 0xBF)\<rparr>)
      else ([0xFFFD], utf8_initial))"

definition utf8_step :: "utf8_state \<Rightarrow> int \<Rightarrow> int list \<times> utf8_state" where
  "utf8_step st b =
     (if bytes_needed st = 0 then utf8_lead b
      else if b < lower_boundary st \<or> upper_boundary st < b then
        (case utf8_lead b of (out, st') \<Rightarrow> (0xFFFD # out, st'))
      else if Suc (bytes_seen st) \<noteq> bytes_needed st then
        ([], st\<lparr>code_point := code_point st * 64 + b mod 64,
                bytes_seen := Suc (bytes_seen st),
                lower_boundary := 0x80, upper_boundary := 0xBF\<rparr>)
      else ([code_point st * 64 + b mod 64], utf8_initial))"

fun utf8_decode :: "utf8_state \<Rightarrow> byte list \<Rightarrow> int list" where
  "utf8_decode st [] = (if bytes_needed st \<noteq> 0 then [0xFFFD] else [])"
| "utf8_decode st (b # bs) =
     (case utf8_step st (uint b) of (out, st') \<Rightarrow> out @ utf8_decode st' bs)"

definition utf16_units :: "int \<Rightarrow> jsstring" where
  "utf16_units cp =
     (if cp < 0x10000 then [of_int cp]
      else [of_int (0xD800 + (cp - 0x10000) div 1024),
            of_int (0xDC00 + (cp - 0x10000) mod 1024)])"

definition TextDecoder_decode :: "byte list \<Rightarrow> jsstring" where
  "TextDecoder_decode bytes =
     concat (map utf16_units
       (case utf8_decode utf8_initial bytes of
          [] \<Rightarrow> []
        | cp # cps \<Rightarrow> if cp = 0xFEFF then cps else cp # cps))"

text \<open>The UTF-8 bytes of an ASCII literal.\<close>

definition ascii :: "string \<Rightarrow> byte list" where
  "ascii s = map (\<lambda>c. of_nat (of_char c)) s"

section \<open>The plugin and what it acts on\<close>

record LatexConverterSettings =
  ollamaModel :: jsstring
  llmPrompt :: jsstring
  keepAlive :: jsstring

definition DEFAULT_SETTINGS :: LatexConverterSettings where
  "DEFAULT_SETTINGS =
     \<lparr>ollamaModel = js ''llama2'',
      llmPrompt = js (''Convert the following natural language to a LaTeX equation, '' @
        ''output ONLY THE EQUATION AND NOTHING ELSE: \"{input}\". '' @
        ''Output should be in this format: ${output}$''),
      keepAlive = js ''5m''\<rparr>"

text \<open>
  A thrown value: an \<^verbatim>\<open>Error\<close> with its message, or something that is not an instance
  of \<^verbatim>\<open>Error\<close>.
\<close>

datatype thrown = Error jsstring | NonError jsstring

text \<open>
  The editor: the document is the text before the selection, the selection and the text
  after it. \<^verbatim>\<open>replaceSelection\<close> puts the new text in place of the selection and
  leaves the cursor after it; it does not throw, and neither does showing or hiding a
  notice.
\<close>

record editor =
  text_before :: jsstring
  selection :: jsstring
  text_after :: jsstring

definition document :: "editor \<Rightarrow> jsstring" where
  "document ed = text_before ed @ selection ed @ text_after ed"

record notice =
  message :: jsstring
  timeout :: nat
  hidden :: bool

text \<open>
  The request \<^verbatim>\<open>fetch\<close> is called with; the body is kept as the object given to
  \<^verbatim>\<open>JSON.stringify\<close>.
\<close>

record request =
  url :: jsstring
  http_method :: jsstring
  content_type :: jsstring
  model :: jsstring
  prompt :: jsstring
  stream :: bool
  keep_alive :: jsstring

text \<open>
  The body of a response, as its reader delivers it: the chunks in the order they
  arrive, and then either the end of the stream or the error the next read rejects
  with. A body has finitely many chunks here, so the loop of \<^verbatim>\<open>callLocalLLM\<close> always
  comes to an end; a server that never closes the stream, on which the loop would go
  on reading, is left out. A response without a body has \<open>None\<close>, and \<^verbatim>\<open>response.ok\<close>
  is what the Fetch standard makes it, a status from 200 to 299.
\<close>

record body_stream =
  chunks :: "byte list list"
  failure :: "thrown option"

record response =
  status :: nat
  body :: "body_stream option"

definition ok :: "response \<Rightarrow> bool" where
  "ok r = (200 \<le> status r \<and> status r \<le> 299)"

datatype fetch_result = Rejected thrown | Resolved response

text \<open>
  The platform as the plugin meets it: what \<^verbatim>\<open>fetch\<close> answers to a request, and how
  a Number prints.
\<close>

record env =
  fetch :: "request \<Rightarrow> fetch_result"
  numberToString :: "int \<Rightarrow> int \<Rightarrow> jsstring"

text \<open>
  Everything the plugin reads and changes: the editor, its settings, the notices it
  has shown, the requests it has sent, how many times it has read from a response body,
  the texts \<^verbatim>\<open>replaceSelection\<close> has put in the document and the first argument of each
  \<^verbatim>\<open>console.error\<close>.
\<close>

record world =
  editor :: editor
  settings :: LatexConverterSettings
  notices :: "notice list"
  requests :: "request list"
  reads :: nat
  replaced :: "jsstring list"
  console :: "jsstring list"

definition getSelection :: "world \<Rightarrow> jsstring" where
  "getSelection w = selection (editor w)"

definition replaceSelection :: "jsstring \<Rightarrow> world \<Rightarrow> world" where
  "replaceSelection text w =
     w\<lparr>editor := (editor w)\<lparr>text_before := text_before (editor w) @ text, selection := []\<rparr>,
       replaced := replaced w @ [text]\<rparr>"

text \<open>\<^verbatim>\<open>new Notice(message, timeout)\<close> gives a handle; \<^verbatim>\<open>hide()\<close> takes the notice down.\<close>

definition new_Notice :: "jsstring \<Rightarrow> nat \<Rightarrow> world \<Rightarrow> nat \<times> world" where
  "new_Notice msg t w =
     (length (notices w),
      w\<lparr>notices := notices w @ [\<lparr>message = msg, timeout = t, hidden = False\<rparr>]\<rparr>)"

definition hide :: "nat \<Rightarrow> world \<Rightarrow> world" where
  "hide h w =
     (if h < length (notices w)
      then w\<lparr>notices := (notices w)[h := (notices w ! h)\<lparr>hidden := True\<rparr>]\<rparr>
      else w)"

definition console_error :: "jsstring \<Rightarrow> world \<Rightarrow> world" where
  "console_error label w = w\<lparr>console := console w @ [label]\<rparr>"

section \<open>handleError\<close>

definition errorMessage :: "thrown \<Rightarrow> jsstring" where
  "errorMessage error =
     (case error of
        Error msg \<Rightarrow>
          if str_includes msg (js ''HTTP error'') then
            js (''Failed to connect to Ollama. Please ensure Ollama is running and '' @
                ''accessible at http://localhost:11434. Error: '') @ msg
          else if str_includes msg (js ''Failed to parse response'') then
            js (''Received an invalid response from Ollama. The model might be '' @
                ''having issues. Error: '') @ msg
          else if str_includes msg (js ''Unable to read response'') then
            js (''Failed to read the response from Ollama. The connection might '' @
                ''have been interrupted. Error: '') @ msg
          else js ''Error converting to LaTeX: '' @ msg
      | NonError x \<Rightarrow> js ''An unexpected error occurred while converting to LaTeX.'')"

definition handleError :: "thrown \<Rightarrow> world \<Rightarrow> world" where
  "handleError error w =
     console_error (errorMessage error) (snd (new_Notice (errorMessage error) 10000 w))"

section \<open>callLocalLLM\<close>

definition ollamaEndpoint :: jsstring where
  "ollamaEndpoint = js ''http://localhost:11434/api/generate''"

definition sanitizedInput :: "jsstring \<Rightarrow> jsstring" where
  "sanitizedInput input =
     replace_global (replace_global input BACKSLASH [BACKSLASH, BACKSLASH])
       QUOTE [BACKSLASH, QUOTE]"

definition prompt_for :: "LatexConverterSettings \<Rightarrow> jsstring \<Rightarrow> jsstring" where
  "prompt_for st input = replace_string (llmPrompt st) (js ''{input}'') (sanitizedInput input)"

definition request_for :: "LatexConverterSettings \<Rightarrow> jsstring \<Rightarrow> request" where
  "request_for st input =
     \<lparr>url = ollamaEndpoint, http_method = js ''POST'', content_type = js ''application/json'',
      model = ollamaModel st, prompt = prompt_for st input, stream = True,
      keep_alive = keepAlive st\<rparr>"

text \<open>
  The body of the inner \<^verbatim>\<open>try\<close>, for one line: whatever \<^verbatim>\<open>JSON.parse\<close> or the
  property access throws is caught, logged and thrown again as the one parse error.
\<close>

definition handle_line :: "env \<Rightarrow> jsstring \<Rightarrow> jsstring \<Rightarrow> world \<Rightarrow> (thrown + jsstring) \<times> world" where
  "handle_line e line latexEquation w =
     (case (case JSON_parse line of
              Inl parseError \<Rightarrow> Inl parseError
            | Inr data \<Rightarrow>
                (case response_of data of
                   Inl parseError \<Rightarrow> Inl parseError
                 | Inr None \<Rightarrow> Inr latexEquation
                 | Inr (Some r) \<Rightarrow>
                     if truthy r then
                       (case ToString (numberToString e) r of
                          Inl parseError \<Rightarrow> Inl parseError
                        | Inr s \<Rightarrow> Inr (latexEquation @ s))
                     else Inr latexEquation)) of
        Inl parseError \<Rightarrow>
          (Inl (Error (js ''Failed to parse response from Ollama'')),
           console_error (js ''Error parsing JSON:'') w)
      | Inr latexEquation' \<Rightarrow> (Inr latexEquation', w))"

fun for_lines :: "env \<Rightarrow> jsstring list \<Rightarrow> jsstring \<Rightarrow> world \<Rightarrow> (thrown + jsstring) \<times> world" where
  "for_lines e [] latexEquation w = (Inr latexEquation, w)"
| "for_lines e (line # lines) latexEquation w =
     (case handle_line e line latexEquation w of
        (Inl err, w') \<Rightarrow> (Inl err, w')
      | (Inr latexEquation', w') \<Rightarrow> for_lines e lines latexEquation' w')"

definition lines_of :: "byte list \<Rightarrow> jsstring list" where
  "lines_of v = filter (\<lambda>line. trim line \<noteq> []) (split_on LF (TextDecoder_decode v))"

text \<open>
  The \<^verbatim>\<open>while (true)\<close> loop: one round for each chunk, and a last read that finds the
  stream done or failed.
\<close>

fun read_loop ::
  "env \<Rightarrow> byte list list \<Rightarrow> thrown option \<Rightarrow> jsstring \<Rightarrow> world \<Rightarrow> (thrown + jsstring) \<times> world" where
  "read_loop e [] fl latexEquation w =
     (case fl of
        None \<Rightarrow> (Inr latexEquation, w\<lparr>reads := Suc (reads w)\<rparr>)
      | Some err \<Rightarrow> (Inl err, w\<lparr>reads := Suc (reads w)\<rparr>))"
| "read_loop e (v # vs) fl latexEquation w =
     (case for_lines e (lines_of v) latexEquation (w\<lparr>reads := Suc (reads w)\<rparr>) of
        (Inl err, w') \<Rightarrow> (Inl err, w')
      | (Inr latexEquation', w') \<Rightarrow> read_loop e vs fl latexEquation' w')"

definition callLocalLLM :: "env \<Rightarrow> jsstring \<Rightarrow> world \<Rightarrow> (thrown + jsstring) \<times> world" where
  "callLocalLLM e input w =
     (case
        (case fetch e (request_for (settings w) input) of
           Rejected err \<Rightarrow>
             (Inl err, w\<lparr>requests := requests w @ [request_for (settings w) input]\<rparr>)
         | Resolved response \<Rightarrow>
             if \<not> ok response then
               (Inl (Error (js ''HTTP error! status: '' @ decimal (status response))),
                w\<lparr>requests := requests w @ [request_for (settings w) input]\<rparr>)
             else
               (case body response of
                  None \<Rightarrow>
                    (Inl (Error (js ''Unable to read response from Ollama'')),
                     w\<lparr>requests := requests w @ [request_for (settings w) input]\<rparr>)
                | Some reader \<Rightarrow>
                    (case read_loop e (chunks reader) (failure reader) []
                            (w\<lparr>requests := requests w @ [request_for (settings w) input]\<rparr>) of
                       (Inl err, w') \<Rightarrow> (Inl err, w')
                     | (Inr latexEquation, w') \<Rightarrow> (Inr (trim latexEquation), w')))) of
        (Inl error, w') \<Rightarrow> (Inl error, console_error (js ''Error in callLocalLLM:'') w')
      | (Inr result, w') \<Rightarrow> (Inr result, w'))"

section \<open>convertToLatex\<close>

definition convertToLatex :: "env \<Rightarrow> world \<Rightarrow> world" where
  "convertToLatex e w =
     (if getSelection w = [] then
        snd (new_Notice
          (js ''No text selected. Please select the text you want to convert to LaTeX.'')
          5000 w)
      else
        (case new_Notice (js ''Converting to LaTeX...'') 0 w of
           (loadingNotice, w1) \<Rightarrow>
             hide loadingNotice
               (case callLocalLLM e (getSelection w) w1 of
                  (Inr latexEquation, w2) \<Rightarrow>
                    snd (new_Notice (js ''Successfully converted to LaTeX!'') 3000
                           (replaceSelection latexEquation w2))
                | (Inl error, w2) \<Rightarrow> handleError error w2)))"

section \<open>convertToLatex where the editor and the notices throw\<close>

text \<open>
  \<^verbatim>\<open>convertToLatex\<close> and \<^verbatim>\<open>handleError\<close> once more, with their \<^verbatim>\<open>try\<close>, \<^verbatim>\<open>catch\<close> and
  \<^verbatim>\<open>finally\<close> written out, for a platform where \<^verbatim>\<open>new Notice\<close> and
  \<^verbatim>\<open>editor.replaceSelection\<close> may throw: for which message and timeout, for which
  text, and what is thrown. A call that throws has done nothing else: the notice is
  not shown, the document is not changed. \<^verbatim>\<open>console.error\<close> and \<^verbatim>\<open>hide\<close> do not throw.
  The result says how the command ends: \<open>Inr ()\<close> when it returns, \<open>Inl\<close> with the
  value thrown when an exception leaves it.
\<close>

record faults =
  Notice_throws :: "jsstring \<Rightarrow> nat \<Rightarrow> thrown option"
  replaceSelection_throws :: "jsstring \<Rightarrow> thrown option"

definition no_faults :: faults where
  "no_faults = \<lparr>Notice_throws = (\<lambda>msg t. None), replaceSelection_throws = (\<lambda>text. None)\<rparr>"

definition new_Notice_throwing ::
  "faults \<Rightarrow> jsstring \<Rightarrow> nat \<Rightarrow> world \<Rightarrow> (thrown + nat) \<times> world" where
  "new_Notice_throwing f msg t w =
     (case Notice_throws f msg t of
        Some err \<Rightarrow> (Inl err, w)
      | None \<Rightarrow> (case new_Notice msg t w of (notice, w') \<Rightarrow> (Inr notice, w')))"

definition replaceSelection_throwing ::
  "faults \<Rightarrow> jsstring \<Rightarrow> world \<Rightarrow> (thrown + unit) \<times> world" where
  "replaceSelection_throwing f text w =
     (case replaceSelection_throws f text of
        Some err \<Rightarrow> (Inl err, w)
      | None \<Rightarrow> (Inr (), replaceSelection text w))"

definition handleError_throwing :: "faults \<Rightarrow> thrown \<Rightarrow> world \<Rightarrow> (thrown + unit) \<times> world" where
  "handleError_throwing f error w =
     (case new_Notice_throwing f (errorMessage error) 10000 w of
        (Inl err, w') \<Rightarrow> (Inl err, w')
      | (Inr notice, w') \<Rightarrow> (Inr (), console_error (errorMessage error) w'))"

text \<open>The three statements of the \<^verbatim>\<open>try\<close> block: the first that throws ends it.\<close>

definition try_block ::
  "faults \<Rightarrow> env \<Rightarrow> jsstring \<Rightarrow> world \<Rightarrow> (thrown + unit) \<times> world" where
  "try_block f e sel w =
     (case callLocalLLM e sel w of
        (Inl err, w1) \<Rightarrow> (Inl err, w1)
      | (Inr latexEquation, w1) \<Rightarrow>
          (case replaceSelection_throwing f latexEquation w1 of
             (Inl err, w2) \<Rightarrow> (Inl err, w2)
           | (Inr u, w2) \<Rightarrow>
               (case new_Notice_throwing f (js ''Successfully converted to LaTeX!'') 3000 w2 of
                  (Inl err, w3) \<Rightarrow> (Inl err, w3)
                | (Inr notice, w3) \<Rightarrow> (Inr (), w3))))"

text \<open>
  What the \<^verbatim>\<open>try\<close> block throws goes to \<^verbatim>\<open>handleError\<close>; what \<^verbatim>\<open>handleError\<close> throws
  leaves the command; either way, and when nothing is thrown, \<^verbatim>\<open>finally\<close> hides the
  notice first.
\<close>

definition convertToLatex_throwing ::
  "faults \<Rightarrow> env \<Rightarrow> world \<Rightarrow> (thrown + unit) \<times> world" where
  "convertToLatex_throwing f e w =
     (if getSelection w = [] then
        (case new_Notice_throwing f
                (js ''No text selected. Please select the text you want to convert to LaTeX.'')
                5000 w of
           (Inl err, w') \<Rightarrow> (Inl err, w')
         | (Inr notice, w') \<Rightarrow> (Inr (), w'))
      else
        (case new_Notice_throwing f (js ''Converting to LaTeX...'') 0 w of
           (Inl err, w1) \<Rightarrow> (Inl err, w1)
         | (Inr loadingNotice, w1) \<Rightarrow>
             (case (case try_block f e (getSelection w) w1 of
                      (Inl error, w2) \<Rightarrow> handleError_throwing f error w2
                    | (Inr u, w2) \<Rightarrow> (Inr (), w2)) of
                (completion, w3) \<Rightarrow> (completion, hide loadingNotice w3))))"

section \<open>Concrete worlds and servers\<close>

text \<open>
  A world with the default settings where the document is just the selected text, and
  a platform where every request gets the same answer and a Number prints as
  ECMAScript says.
\<close>

definition selecting :: "jsstring \<Rightarrow> world" where
  "selecting sel =
     \<lparr>editor = \<lparr>text_before = [], selection = sel, text_after = []\<rparr>,
      settings = DEFAULT_SETTINGS, notices = [], requests = [], reads = 0,
      replaced = [], console = []\<rparr>"

definition answering :: "fetch_result \<Rightarrow> env" where
  "answering r = \<lparr>fetch = (\<lambda>req. r), numberToString = Number_toString\<rparr>"

definition streaming :: "nat \<Rightarrow> byte list list \<Rightarrow> env" where
  "streaming code vs =
     answering (Resolved \<lparr>status = code, body = Some \<lparr>chunks = vs, failure = None\<rparr>\<rparr>)"

text \<open>
  The specification's example: two chunks of one line each, and the LaTeX they give.
\<close>

definition integral_stream :: "byte list list" where
  "integral_stream =
     [ascii ''{\"response\":\"'' @ [0x5C, 0x5C] @ ascii ''int\"}'' @ [10],
      ascii ''{\"response\":\" x^2 '' @ [0x5C, 0x5C] @ ascii '',dx\"}'' @ [10]]"

definition integral_latex :: jsstring where
  "integral_latex = [BACKSLASH] @ js ''int x^2 '' @ [BACKSLASH] @ js '',dx''"

text \<open>
  A platform where the notice of \<^verbatim>\<open>handleError\<close>, the one shown for ten seconds,
  throws, and one where \<^verbatim>\<open>replaceSelection\<close> throws.
\<close>

definition error_notice_throws :: faults where
  "error_notice_throws =
     \<lparr>Notice_throws = (\<lambda>msg t. if t = 10000 then Some (Error (js ''no notice'')) else None),
      replaceSelection_throws = (\<lambda>text. None)\<rparr>"

definition editor_throws :: faults where
  "editor_throws =
     \<lparr>Notice_throws = (\<lambda>msg t. None),
      replaceSelection_throws = (\<lambda>text. Some (Error (js ''read only'')))\<rparr>"

text \<open>
  Two objects on one line with nothing between them, read in two pieces, the boundary
  between the objects.
\<close>

definition glued_stream :: "byte list list" where
  "glued_stream = [ascii ''{\"response\":\"a\"}'', ascii ''{\"response\":\"b\"}'' @ [10]]"


section \<open>The specification's words\<close>

text \<open>Replacing every occurrence of one code unit by a fixed text.\<close>

definition escape_every :: "jschar \<Rightarrow> jsstring \<Rightarrow> jsstring \<Rightarrow> jsstring" where
  "escape_every c r s = concat (map (\<lambda>x. if x = c then r else [x]) s)"

text \<open>
  The \<^verbatim>\<open>response\<close> string field of a line: the text of the member when the line is an
  object that has one and it is a string, nothing otherwise. The text a stream should
  give: these fields over all lines that are not blank, in the order they arrive,
  trimmed. A line that is a JSON value other than \<^verbatim>\<open>null\<close> whose \<^verbatim>\<open>response\<close>, where it
  has one, is a string or a value the condition of the \<^verbatim>\<open>if\<close> rejects.
\<close>

definition response_text :: "jsstring \<Rightarrow> jsstring" where
  "response_text line =
     (case JSON_parse line of
        Inr (JObj ms) \<Rightarrow>
          (case map_of (rev ms) (js ''response'') of Some (JStr s) \<Rightarrow> s | _ \<Rightarrow> [])
      | _ \<Rightarrow> [])"

definition expected_text :: "byte list list \<Rightarrow> jsstring" where
  "expected_text vs =
     trim (concat (map response_text
       (filter (\<lambda>line. trim line \<noteq> [])
          (concat (map (\<lambda>v. split_on LF (TextDecoder_decode v)) vs)))))"

definition plain_line :: "jsstring \<Rightarrow> bool" where
  "plain_line line =
     (case JSON_parse line of
        Inl err \<Rightarrow> False
      | Inr d \<Rightarrow>
          (case d of
             JNull \<Rightarrow> False
           | JObj ms \<Rightarrow>
               (case map_of (rev ms) (js ''response'') of
                  None \<Rightarrow> True
                | Some r \<Rightarrow> (case r of JStr s \<Rightarrow> True | _ \<Rightarrow> \<not> truthy r))
           | _ \<Rightarrow> True))"

text \<open>
  Putting a text, as it is, in place of the first occurrence of a pattern.
\<close>

definition substitute_first :: "jsstring \<Rightarrow> jsstring \<Rightarrow> jsstring \<Rightarrow> jsstring" where
  "substitute_first s pat text =
     (case indexOf s pat of
        None \<Rightarrow> s
      | Some p \<Rightarrow> take p s @ text @ drop (p + length pat) s)"

section \<open>Facts about the string functions\<close>

lemma js_Nil [simp]: "js [] = []"
  by (simp add: js_def)

lemma js_append: "js (a @ b) = js a @ js b"
  by (simp add: js_def)

lemma str_includes_sublist: "str_includes s pat \<longleftrightarrow> sublist pat s"
  by (induction s) (simp_all add: sublist_Cons_right)

lemma str_includes_append: "str_includes (a @ b @ c) b"
  by (simp add: str_includes_sublist)

lemma str_includes_suffix: "str_includes (a @ b) b"
  using str_includes_append [of a b "[]"] by simp

lemma getSubstitution_plain:
  "DOLLAR \<notin> set t \<Longrightarrow> getSubstitution matched str position t = t"
  by (induction matched str position t rule: getSubstitution.induct) auto

lemma replace_from_plain:
  "DOLLAR \<notin> set r \<Longrightarrow> replace_from c r str position xs = escape_every c r xs"
  by (induction xs arbitrary: position) (simp_all add: escape_every_def getSubstitution_plain)

lemma replace_global_plain:
  "DOLLAR \<notin> set r \<Longrightarrow> replace_global s c r = escape_every c r s"
  by (simp add: replace_global_def replace_from_plain)

section \<open>One line, all lines, all chunks\<close>

text \<open>
  The one error the loop throws by itself; whether a line makes the body of the inner
  \<^verbatim>\<open>try\<close> throw; and what a line that does not throw appends.
\<close>

definition parse_failure :: thrown where
  "parse_failure = Error (js ''Failed to parse response from Ollama'')"

fun unprintable :: "json \<Rightarrow> bool" where
  "unprintable (JObj ms) = (js ''toString'' \<in> set (map fst ms))"
| "unprintable (JArr xs) = (\<exists>x\<in>set xs. unprintable x)"
| "unprintable v = False"

definition line_throws :: "jsstring \<Rightarrow> bool" where
  "line_throws line =
     (case JSON_parse line of
        Inl err \<Rightarrow> True
      | Inr d \<Rightarrow>
          (case response_of d of
             Inl err \<Rightarrow> True
           | Inr None \<Rightarrow> False
           | Inr (Some r) \<Rightarrow> truthy r \<and> unprintable r))"

definition contribution :: "(int \<Rightarrow> int \<Rightarrow> jsstring) \<Rightarrow> jsstring \<Rightarrow> jsstring" where
  "contribution num line =
     (case JSON_parse line of
        Inl err \<Rightarrow> []
      | Inr d \<Rightarrow>
          (case response_of d of
             Inr (Some r) \<Rightarrow>
               if truthy r then (case ToString num r of Inl err \<Rightarrow> [] | Inr s \<Rightarrow> s)
               else []
           | _ \<Rightarrow> []))"

lemma collect_throws: "isl (collect rs) \<longleftrightarrow> (\<exists>r\<in>set rs. isl r)"
  by (induction rs rule: collect.induct) (auto split: sum.splits)

lemma ToString_throws: "isl (ToString num v) \<longleftrightarrow> unprintable v"
proof (induction num v rule: ToString.induct)
  case (5 num xs)
  define f where "f = (\<lambda>x. if x = JNull then Inr [] else ToString num x)"
  have elem: "isl (f x) \<longleftrightarrow> unprintable x" if "x \<in> set xs" for x
    using 5 [OF that] by (cases "x = JNull") (simp_all add: f_def)
  have "isl (ToString num (JArr xs)) \<longleftrightarrow> isl (collect (map f xs))"
    by (simp add: f_def split: sum.splits)
  also have "\<dots> \<longleftrightarrow> (\<exists>x\<in>set xs. isl (f x))"
    by (simp add: collect_throws)
  also have "\<dots> \<longleftrightarrow> (\<exists>x\<in>set xs. unprintable x)"
    using elem by blast
  finally show ?case by simp
qed simp_all

lemma unprintable_cases: "unprintable v \<Longrightarrow> (\<exists>ms. v = JObj ms) \<or> (\<exists>xs. v = JArr xs)"
  by (cases v) simp_all

lemma ToString_unprintable:
  "unprintable v \<Longrightarrow> \<exists>err. ToString num v = Inl err"
  using ToString_throws [of num v] by (cases "ToString num v") simp_all

lemma ToString_printable:
  "\<not> unprintable v \<Longrightarrow> \<exists>s. ToString num v = Inr s"
  using ToString_throws [of num v] by (cases "ToString num v") simp_all

lemma handle_line_throws:
  assumes "line_throws line"
  shows "handle_line e line acc w =
           (Inl parse_failure, console_error (js ''Error parsing JSON:'') w)"
proof (cases "JSON_parse line")
  case (Inl err)
  then show ?thesis by (simp add: handle_line_def parse_failure_def)
next
  case (Inr d)
  show ?thesis
  proof (cases "response_of d")
    case (Inl err)
    with Inr show ?thesis by (simp add: handle_line_def parse_failure_def)
  next
    case r: (Inr r)
    with assms Inr obtain v where v: "r = Some v" "truthy v" "unprintable v"
      by (cases r) (auto simp: line_throws_def)
    from ToString_unprintable [OF v(3)] obtain err where
      "ToString (numberToString e) v = Inl err" by blast
    with Inr r v show ?thesis by (simp add: handle_line_def parse_failure_def)
  qed
qed

lemma handle_line_returns:
  assumes "\<not> line_throws line"
  shows "handle_line e line acc w = (Inr (acc @ contribution (numberToString e) line), w)"
proof (cases "JSON_parse line")
  case (Inl err)
  with assms show ?thesis by (simp add: line_throws_def)
next
  case (Inr d)
  show ?thesis
  proof (cases "response_of d")
    case (Inl err)
    with assms Inr show ?thesis by (simp add: line_throws_def)
  next
    case r: (Inr r)
    show ?thesis
    proof (cases r)
      case None
      with Inr r show ?thesis by (simp add: handle_line_def contribution_def)
    next
      case (Some v)
      show ?thesis
      proof (cases "truthy v")
        case False
        with Inr r Some show ?thesis by (simp add: handle_line_def contribution_def)
      next
        case True
        with assms Inr r Some have "\<not> unprintable v" by (simp add: line_throws_def)
        from ToString_printable [OF this] obtain s where
          "ToString (numberToString e) v = Inr s" by blast
        with Inr r Some True show ?thesis by (simp add: handle_line_def contribution_def)
      qed
    qed
  qed
qed

lemma for_lines_returns:
  "\<forall>line\<in>set lines. \<not> line_throws line \<Longrightarrow>
   for_lines e lines acc w =
     (Inr (acc @ concat (map (contribution (numberToString e)) lines)), w)"
  by (induction lines arbitrary: acc) (simp_all add: handle_line_returns)

lemma for_lines_throws:
  "\<exists>line\<in>set lines. line_throws line \<Longrightarrow>
   for_lines e lines acc w = (Inl parse_failure, console_error (js ''Error parsing JSON:'') w)"
proof (induction lines arbitrary: acc)
  case Nil
  then show ?case by simp
next
  case (Cons l ls)
  show ?case
  proof (cases "line_throws l")
    case True
    then show ?thesis by (simp add: handle_line_throws)
  next
    case False
    with Cons.prems have "\<exists>line\<in>set ls. line_throws line" by auto
    with False Cons.IH show ?thesis by (simp add: handle_line_returns)
  qed
qed

lemma read_loop_returns:
  "\<forall>v\<in>set vs. \<forall>line\<in>set (lines_of v). \<not> line_throws line \<Longrightarrow>
   read_loop e vs fl acc w =
     (case fl of
        None \<Rightarrow> Inr (acc @ concat (map (contribution (numberToString e)) (concat (map lines_of vs))))
      | Some err \<Rightarrow> Inl err,
      w\<lparr>reads := reads w + length vs + 1\<rparr>)"
proof (induction vs arbitrary: acc w)
  case Nil
  then show ?case by (simp split: option.splits)
next
  case (Cons v vs)
  then show ?case by (simp add: for_lines_returns split: option.splits)
qed

lemma read_loop_throws:
  "\<exists>v\<in>set vs. \<exists>line\<in>set (lines_of v). line_throws line \<Longrightarrow>
   fst (read_loop e vs fl acc w) = Inl parse_failure"
proof (induction vs arbitrary: acc w)
  case Nil
  then show ?case by simp
next
  case (Cons v vs)
  show ?case
  proof (cases "\<exists>line\<in>set (lines_of v). line_throws line")
    case True
    then show ?thesis by (simp add: for_lines_throws)
  next
    case False
    with Cons.prems have "\<exists>v\<in>set vs. \<exists>line\<in>set (lines_of v). line_throws line" by auto
    with False Cons.IH show ?thesis by (simp add: for_lines_returns)
  qed
qed

definition only_logs :: "world \<Rightarrow> world \<Rightarrow> bool" where
  "only_logs w w' =
     (editor w' = editor w \<and> settings w' = settings w \<and> notices w' = notices w \<and>
      requests w' = requests w \<and> replaced w' = replaced w)"

lemma only_logs_refl: "only_logs w w"
  by (simp add: only_logs_def)

lemma only_logs_trans: "only_logs w w' \<Longrightarrow> only_logs w' w'' \<Longrightarrow> only_logs w w''"
  by (simp add: only_logs_def)

lemma only_logs_reads: "only_logs w (w\<lparr>reads := n\<rparr>)"
  by (simp add: only_logs_def)

lemma only_logs_console_error: "only_logs w (console_error l w)"
  by (simp add: only_logs_def console_error_def)

lemma for_lines_world: "only_logs w (snd (for_lines e lines acc w))"
proof (cases "\<exists>line\<in>set lines. line_throws line")
  case True
  then show ?thesis by (simp add: for_lines_throws only_logs_console_error)
next
  case False
  then show ?thesis by (simp add: for_lines_returns only_logs_refl)
qed

lemma read_loop_world: "only_logs w (snd (read_loop e vs fl acc w))"
proof (induction vs arbitrary: acc w)
  case Nil
  show ?case by (cases fl) (simp_all add: only_logs_reads)
next
  case (Cons v vs)
  let ?w1 = "w\<lparr>reads := Suc (reads w)\<rparr>"
  obtain r w' where fl: "for_lines e (lines_of v) acc ?w1 = (r, w')"
    by (cases "for_lines e (lines_of v) acc ?w1")
  have "only_logs ?w1 w'"
    using for_lines_world [of ?w1 e "lines_of v" acc] fl by simp
  with only_logs_reads have w': "only_logs w w'"
    by (rule only_logs_trans)
  show ?case
  proof (cases r)
    case (Inl err)
    with fl w' show ?thesis by simp
  next
    case (Inr acc')
    have "only_logs w' (snd (read_loop e vs fl acc' w'))" by (rule Cons.IH)
    with w' have "only_logs w (snd (read_loop e vs fl acc' w'))" by (rule only_logs_trans)
    with fl Inr show ?thesis by simp
  qed
qed

lemma callLocalLLM_world:
  "only_logs (w\<lparr>requests := requests w @ [request_for (settings w) input]\<rparr>)
     (snd (callLocalLLM e input w))"
proof -
  let ?w1 = "w\<lparr>requests := requests w @ [request_for (settings w) input]\<rparr>"
  show ?thesis
  proof (cases "fetch e (request_for (settings w) input)")
    case (Rejected err)
    then show ?thesis by (simp add: callLocalLLM_def only_logs_console_error)
  next
    case (Resolved r)
    show ?thesis
    proof (cases "ok r")
      case False
      with Resolved show ?thesis by (simp add: callLocalLLM_def only_logs_console_error)
    next
      case True
      show ?thesis
      proof (cases "body r")
        case None
        with Resolved True show ?thesis by (simp add: callLocalLLM_def only_logs_console_error)
      next
        case (Some b)
        obtain res w' where rl: "read_loop e (chunks b) (failure b) [] ?w1 = (res, w')"
          by (cases "read_loop e (chunks b) (failure b) [] ?w1")
        have w': "only_logs ?w1 w'"
          using read_loop_world [of ?w1 e "chunks b" "failure b" "[]"] rl by simp
        have "only_logs ?w1 (console_error (js ''Error in callLocalLLM:'') w')"
          using w' only_logs_console_error by (rule only_logs_trans)
        with w' Resolved True Some rl show ?thesis
          by (cases res) (simp_all add: callLocalLLM_def)
      qed
    qed
  qed
qed

section \<open>The outcome of a call and of the command\<close>

lemma read_loop_fst:
  "fst (read_loop e vs fl acc w) =
     (if \<exists>v\<in>set vs. \<exists>line\<in>set (lines_of v). line_throws line then Inl parse_failure
      else (case fl of
              None \<Rightarrow>
                Inr (acc @ concat (map (contribution (numberToString e)) (concat (map lines_of vs))))
            | Some err \<Rightarrow> Inl err))"
proof (cases "\<exists>v\<in>set vs. \<exists>line\<in>set (lines_of v). line_throws line")
  case True
  then show ?thesis using read_loop_throws [of vs e fl acc w] by simp
next
  case False
  then have "\<forall>v\<in>set vs. \<forall>line\<in>set (lines_of v). \<not> line_throws line" by blast
  from read_loop_returns [OF this, of e fl acc w] False show ?thesis by simp
qed

lemma callLocalLLM_fst_settings:
  assumes "settings w' = settings w"
  shows "fst (callLocalLLM e input w') = fst (callLocalLLM e input w)"
proof -
  have rl: "fst (read_loop e vs fl acc a) = fst (read_loop e vs fl acc b)" for vs fl acc a b
    by (simp only: read_loop_fst)
  have "fst (case x of (Inl err, u) \<Rightarrow> (Inl err, f u) | (Inr t, u) \<Rightarrow> (Inr (g t), u)) =
        (case fst x of Inl err \<Rightarrow> Inl err | Inr t \<Rightarrow> Inr (g t))"
    for x :: "(thrown + jsstring) \<times> world" and f g
    by (cases x) (simp split: sum.splits)
  note fst_case = this
  show ?thesis
    unfolding callLocalLLM_def assms
    by (simp add: fst_case split: fetch_result.splits option.splits) (metis rl)
qed


lemma convertToLatex_fails:
  assumes sel: "getSelection w \<noteq> []"
    and call: "fst (callLocalLLM e (getSelection w) w) = Inl err"
  shows "editor (convertToLatex e w) = editor w
         \<and> replaced (convertToLatex e w) = replaced w
         \<and> notices (convertToLatex e w) = notices w @
             [\<lparr>message = js ''Converting to LaTeX...'', timeout = 0, hidden = True\<rparr>,
              \<lparr>message = errorMessage err, timeout = 10000, hidden = False\<rparr>]"
proof -
  let ?n = "\<lparr>message = js ''Converting to LaTeX...'', timeout = 0, hidden = False\<rparr>"
  let ?w1 = "w\<lparr>notices := notices w @ [?n]\<rparr>"
  obtain res w2 where c: "callLocalLLM e (getSelection w) ?w1 = (res, w2)"
    by (cases "callLocalLLM e (getSelection w) ?w1")
  have "fst (callLocalLLM e (getSelection w) ?w1) = fst (callLocalLLM e (getSelection w) w)"
    by (rule callLocalLLM_fst_settings) simp
  with call c have res: "res = Inl err" by simp
  have "only_logs (?w1\<lparr>requests := requests ?w1 @ [request_for (settings ?w1) (getSelection w)]\<rparr>) w2"
    using callLocalLLM_world [of ?w1 "getSelection w" e] c by simp
  then have "notices w2 = notices w @ [?n]" "editor w2 = editor w" "replaced w2 = replaced w"
    by (simp_all add: only_logs_def)
  with sel c res show ?thesis
    by (simp add: convertToLatex_def new_Notice_def hide_def handleError_def
        console_error_def nth_append)
qed

lemma convertToLatex_succeeds:
  assumes sel: "getSelection w \<noteq> []"
    and call: "fst (callLocalLLM e (getSelection w) w) = Inr latexEquation"
  shows "editor (convertToLatex e w) =
           (editor w)\<lparr>text_before := text_before (editor w) @ latexEquation, selection := []\<rparr>
         \<and> replaced (convertToLatex e w) = replaced w @ [latexEquation]
         \<and> notices (convertToLatex e w) = notices w @
             [\<lparr>message = js ''Converting to LaTeX...'', timeout = 0, hidden = True\<rparr>,
              \<lparr>message = js ''Successfully converted to LaTeX!'', timeout = 3000,
                hidden = False\<rparr>]"
proof -
  let ?n = "\<lparr>message = js ''Converting to LaTeX...'', timeout = 0, hidden = False\<rparr>"
  let ?w1 = "w\<lparr>notices := notices w @ [?n]\<rparr>"
  obtain res w2 where c: "callLocalLLM e (getSelection w) ?w1 = (res, w2)"
    by (cases "callLocalLLM e (getSelection w) ?w1")
  have "fst (callLocalLLM e (getSelection w) ?w1) = fst (callLocalLLM e (getSelection w) w)"
    by (rule callLocalLLM_fst_settings) simp
  with call c have res: "res = Inr latexEquation" by simp
  have "only_logs (?w1\<lparr>requests := requests ?w1 @ [request_for (settings ?w1) (getSelection w)]\<rparr>) w2"
    using callLocalLLM_world [of ?w1 "getSelection w" e] c by simp
  then have "notices w2 = notices w @ [?n]" "editor w2 = editor w" "replaced w2 = replaced w"
    by (simp_all add: only_logs_def)
  with sel c res show ?thesis
    by (simp add: convertToLatex_def new_Notice_def hide_def replaceSelection_def nth_append)
qed

lemma callLocalLLM_not_ok:
  assumes "fetch e (request_for (settings w) input) = Resolved r" and "\<not> ok r"
  shows "callLocalLLM e input w =
           (Inl (Error (js ''HTTP error! status: '' @ decimal (status r))),
            console_error (js ''Error in callLocalLLM:'')
              (w\<lparr>requests := requests w @ [request_for (settings w) input]\<rparr>))"
  using assms by (simp add: callLocalLLM_def)

lemma callLocalLLM_stream:
  assumes "fetch e (request_for (settings w) input) = Resolved r" and "ok r"
    and "body r = Some b"
  shows "fst (callLocalLLM e input w) =
           (if \<exists>v\<in>set (chunks b). \<exists>line\<in>set (lines_of v). line_throws line
            then Inl parse_failure
            else (case failure b of
                    None \<Rightarrow>
                      Inr (trim (concat (map (contribution (numberToString e))
                                          (concat (map lines_of (chunks b))))))
                  | Some err \<Rightarrow> Inl err))"
proof -
  let ?w1 = "w\<lparr>requests := requests w @ [request_for (settings w) input]\<rparr>"
  obtain res w' where rl: "read_loop e (chunks b) (failure b) [] ?w1 = (res, w')"
    by (cases "read_loop e (chunks b) (failure b) [] ?w1")
  then have "res = fst (read_loop e (chunks b) (failure b) [] ?w1)" by simp
  then have res: "res =
      (if \<exists>v\<in>set (chunks b). \<exists>line\<in>set (lines_of v). line_throws line then Inl parse_failure
       else (case failure b of
               None \<Rightarrow> Inr ([] @ concat (map (contribution (numberToString e))
                                          (concat (map lines_of (chunks b)))))
             | Some err \<Rightarrow> Inl err))"
    by (simp only: read_loop_fst)
  from assms rl have "fst (callLocalLLM e input w) =
      (case res of Inl err \<Rightarrow> Inl err | Inr t \<Rightarrow> Inr (trim t))"
    by (simp add: callLocalLLM_def split: sum.splits)
  with res show ?thesis by (simp split: option.splits)
qed

lemma line_throws_SyntaxError: "JSON_parse line = Inl err \<Longrightarrow> line_throws line"
  by (simp add: line_throws_def)

lemma line_throws_null: "JSON_parse line = Inr JNull \<Longrightarrow> line_throws line"
  by (simp add: line_throws_def)

lemma plain_line_returns: "plain_line line \<Longrightarrow> \<not> line_throws line"
  by (auto simp: plain_line_def line_throws_def dest: unprintable_cases
      split: sum.splits json.splits option.splits)

lemma plain_line_contribution: "plain_line line \<Longrightarrow> contribution num line = response_text line"
  by (auto simp: plain_line_def contribution_def response_text_def
      split: sum.splits json.splits option.splits)

lemma lines_of_concat:
  "concat (map lines_of vs) =
     filter (\<lambda>line. trim line \<noteq> [])
       (concat (map (\<lambda>v. split_on LF (TextDecoder_decode v)) vs))"
  by (induction vs) (simp_all add: lines_of_def)


lemma parse_null: "JSON_parse (js ''null'') = Inr JNull"
  by code_simp

lemma parse_number: "JSON_parse (js ''5'') = Inr (JNum 5 0)"
  by code_simp

lemma parse_empty_response:
  "JSON_parse (js ''{\"response\":\"\"}'') = Inr (JObj [(js ''response'', JStr [])])"
  by code_simp

lemma lines_null: "lines_of (ascii ''null'') = [js ''null'']"
  by code_simp

lemma lines_number: "lines_of (ascii ''5'') = [js ''5'']"
  by code_simp

lemma streaming_fetch:
  "fetch (streaming code vs) req =
     Resolved \<lparr>status = code, body = Some \<lparr>chunks = vs, failure = None\<rparr>\<rparr>"
  by (simp add: streaming_def answering_def)








lemma streaming_call:
  "fst (callLocalLLM (streaming 200 vs) input w) =
     (if \<exists>v\<in>set vs. \<exists>line\<in>set (lines_of v). line_throws line then Inl parse_failure
      else Inr (trim (concat (map (contribution (numberToString (streaming 200 vs)))
                            (concat (map lines_of vs))))))"
proof -
  let ?b = "\<lparr>chunks = vs, failure = None\<rparr>"
  let ?r = "\<lparr>status = 200, body = Some ?b\<rparr>"
  have f: "fetch (streaming 200 vs) (request_for (settings w) input) = Resolved ?r"
    by (rule streaming_fetch)
  have o: "ok ?r" by (simp add: ok_def)
  have b: "body ?r = Some ?b" by simp
  show ?thesis
    using callLocalLLM_stream [OF f o b] by simp
qed

lemma indexOf_None: "indexOf s pat = None \<longleftrightarrow> \<not> str_includes s pat"
  by (induction s) auto

lemma indexOf_first:
  "indexOf s pat = Some p \<Longrightarrow>
   p \<le> length s \<and> prefix pat (drop p s) \<and> (\<forall>q<p. \<not> prefix pat (drop q s))"
proof (induction s arbitrary: p)
  case Nil
  then show ?case by (simp split: if_splits)
next
  case (Cons c cs)
  show ?case
  proof (cases "prefix pat (c # cs)")
    case True
    with Cons.prems show ?thesis by simp
  next
    case False
    with Cons.prems obtain p' where p': "indexOf cs pat = Some p'" "p = Suc p'"
      by auto
    from Cons.IH [OF p'(1)] False p'(2) show ?thesis
      by (auto simp: less_Suc_eq_0_disj)
  qed
qed

lemma escape_every_plain:
  "DOLLAR \<notin> set s \<Longrightarrow> DOLLAR \<notin> set r \<Longrightarrow> DOLLAR \<notin> set (escape_every c r s)"
  by (induction s) (auto simp: escape_every_def)

lemma sanitizedInput_escape:
  "sanitizedInput input =
     escape_every QUOTE [BACKSLASH, QUOTE]
       (escape_every BACKSLASH [BACKSLASH, BACKSLASH] input)"
proof -
  have plain: "DOLLAR \<notin> set [BACKSLASH, BACKSLASH]" "DOLLAR \<notin> set [BACKSLASH, QUOTE]"
    by (simp_all add: DOLLAR_def BACKSLASH_def QUOTE_def)
  show ?thesis
    by (simp only: sanitizedInput_def replace_global_plain [OF plain(1)]
        replace_global_plain [OF plain(2)])
qed

lemma sanitizedInput_plain:
  assumes "DOLLAR \<notin> set input"
  shows "DOLLAR \<notin> set (sanitizedInput input)"
proof -
  have plain: "DOLLAR \<notin> set [BACKSLASH, BACKSLASH]" "DOLLAR \<notin> set [BACKSLASH, QUOTE]"
    by (simp_all add: DOLLAR_def BACKSLASH_def QUOTE_def)
  from assms plain(1)
  have "DOLLAR \<notin> set (escape_every BACKSLASH [BACKSLASH, BACKSLASH] input)"
    by (rule escape_every_plain)
  from this plain(2)
  have "DOLLAR \<notin> set (escape_every QUOTE [BACKSLASH, QUOTE]
      (escape_every BACKSLASH [BACKSLASH, BACKSLASH] input))"
    by (rule escape_every_plain)
  then show ?thesis by (simp add: sanitizedInput_escape)
qed

lemma prompt_for_without_placeholder:
  "\<not> str_includes (llmPrompt st) (js ''{input}'') \<Longrightarrow> prompt_for st input = llmPrompt st"
  by (simp add: prompt_for_def replace_string_def indexOf_None [symmetric])

lemma prompt_for_without_dollar:
  "DOLLAR \<notin> set input \<Longrightarrow>
   prompt_for st input =
     substitute_first (llmPrompt st) (js ''{input}'') (sanitizedInput input)"
  by (simp add: prompt_for_def replace_string_def substitute_first_def
      getSubstitution_plain sanitizedInput_plain split: option.splits)

lemma callLocalLLM_notices: "notices (snd (callLocalLLM e input w)) = notices w"
  using callLocalLLM_world [of w input e] by (simp add: only_logs_def)

lemma new_Notice_throwing_notices:
  "\<exists>extra. notices (snd (new_Notice_throwing f msg t w)) = notices w @ extra"
  by (cases "Notice_throws f msg t") (simp_all add: new_Notice_throwing_def new_Notice_def)

lemma replaceSelection_throwing_notices:
  "notices (snd (replaceSelection_throwing f text w)) = notices w"
  by (cases "replaceSelection_throws f text")
    (simp_all add: replaceSelection_throwing_def replaceSelection_def)

lemma handleError_throwing_notices:
  "\<exists>extra. notices (snd (handleError_throwing f error w)) = notices w @ extra"
  by (cases "Notice_throws f (errorMessage error) 10000")
    (simp_all add: handleError_throwing_def new_Notice_throwing_def new_Notice_def
      console_error_def)

lemma try_block_notices:
  "\<exists>extra. notices (snd (try_block f e sel w)) = notices w @ extra"
proof -
  obtain res w1 where call: "callLocalLLM e sel w = (res, w1)"
    by (cases "callLocalLLM e sel w")
  with callLocalLLM_notices [of e sel w] have n1: "notices w1 = notices w" by simp
  show ?thesis
  proof (cases res)
    case (Inl err)
    with call n1 show ?thesis by (simp add: try_block_def)
  next
    case (Inr latexEquation)
    obtain r2 w2 where rs: "replaceSelection_throwing f latexEquation w1 = (r2, w2)"
      by (cases "replaceSelection_throwing f latexEquation w1")
    with replaceSelection_throwing_notices [of f latexEquation w1] n1
    have n2: "notices w2 = notices w" by simp
    show ?thesis
    proof (cases r2)
      case (Inl err)
      with call Inr rs n2 show ?thesis by (simp add: try_block_def)
    next
      case u: (Inr u)
      obtain r3 w3 where nn:
        "new_Notice_throwing f (js ''Successfully converted to LaTeX!'') 3000 w2 = (r3, w3)"
        by (cases "new_Notice_throwing f (js ''Successfully converted to LaTeX!'') 3000 w2")
      with new_Notice_throwing_notices [of f "js ''Successfully converted to LaTeX!''" 3000 w2] n2
      obtain extra where "notices w3 = notices w @ extra" by auto
      with call Inr rs u nn show ?thesis by (cases r3) (simp_all add: try_block_def)
    qed
  qed
qed

lemma hide_shown:
  "notices w' = shown @ n # extra \<Longrightarrow>
   notices (hide (length shown) w') = shown @ n\<lparr>hidden := True\<rparr> # extra"
  by (simp add: hide_def nth_append list_update_append)

lemma convertToLatex_no_faults:
  "convertToLatex_throwing no_faults e w = (Inr (), convertToLatex e w)"
  by (simp add: convertToLatex_throwing_def convertToLatex_def new_Notice_throwing_def
      try_block_def replaceSelection_throwing_def handleError_throwing_def handleError_def
      no_faults_def split: prod.splits sum.splits)

lemma integral_plain: "list_all (\<lambda>v. list_all plain_line (lines_of v)) integral_stream"
  by code_simp

lemma integral_text: "expected_text integral_stream = integral_latex"
  by code_simp

lemma streaming_not_ok:
  "\<not> (200 \<le> code \<and> code \<le> 299) \<Longrightarrow>
   callLocalLLM (streaming code vs) input w =
     (Inl (Error (js ''HTTP error! status: '' @ decimal code)),
      console_error (js ''Error in callLocalLLM:'')
        (w\<lparr>requests := requests w @ [request_for (settings w) input]\<rparr>))"
proof -
  assume c: "\<not> (200 \<le> code \<and> code \<le> 299)"
  let ?r = "\<lparr>status = code, body = Some \<lparr>chunks = vs, failure = None\<rparr>\<rparr>"
  have f: "fetch (streaming code vs) (request_for (settings w) input) = Resolved ?r"
    by (rule streaming_fetch)
  have n: "\<not> ok ?r" using c by (simp add: ok_def)
  show ?thesis
    using callLocalLLM_not_ok [OF f n] by simp
qed

lemma streaming_plain:
  assumes "list_all (\<lambda>v. list_all plain_line (lines_of v)) vs"
  shows "fst (callLocalLLM (streaming 200 vs) input w) = Inr (expected_text vs)"
proof -
  from assms have plain: "\<forall>v\<in>set vs. \<forall>line\<in>set (lines_of v). plain_line line"
    by (simp add: list_all_iff)
  then have none: "\<not> (\<exists>v\<in>set vs. \<exists>line\<in>set (lines_of v). line_throws line)"
    using plain_line_returns by blast
  from plain have "\<forall>line\<in>set (concat (map lines_of vs)). plain_line line" by auto
  then have same: "map (contribution (numberToString (streaming 200 vs)))
        (concat (map lines_of vs)) = map response_text (concat (map lines_of vs))"
    by (simp add: plain_line_contribution)
  have "fst (callLocalLLM (streaming 200 vs) input w) =
      Inr (trim (concat (map (contribution (numberToString (streaming 200 vs)))
        (concat (map lines_of vs)))))"
    using none by (simp only: streaming_call if_False)
  also have "\<dots> = Inr (expected_text vs)"
    by (subst same) (simp only: expected_text_def lines_of_concat)
  finally show ?thesis .
qed

section \<open>The claims\<close>

text \<open>
  C3. For every input, the sanitised text is the input with every backslash doubled
  and then every double quote preceded by a backslash; this is the text put in place
  of the placeholder of the prompt template. The input \<^verbatim>\<open>a"b\c\<close> becomes
  \<^verbatim>\<open>a\"b\\c\<close>.
\<close>

theorem C3_sanitizedInput:
  "sanitizedInput input =
     escape_every QUOTE [BACKSLASH, QUOTE]
       (escape_every BACKSLASH [BACKSLASH, BACKSLASH] input)
   \<and> prompt (request_for st input) =
       replace_string (llmPrompt st) (js ''{input}'') (sanitizedInput input)
   \<and> sanitizedInput (js ''a\"b'' @ [BACKSLASH] @ js ''c'') =
       js ''a'' @ [BACKSLASH] @ js ''\"b'' @ [BACKSLASH, BACKSLASH] @ js ''c''"
proof -
  have plain: "DOLLAR \<notin> set [BACKSLASH, BACKSLASH]" "DOLLAR \<notin> set [BACKSLASH, QUOTE]"
    by (simp_all add: DOLLAR_def BACKSLASH_def QUOTE_def)
  have general: "sanitizedInput x =
      escape_every QUOTE [BACKSLASH, QUOTE]
        (escape_every BACKSLASH [BACKSLASH, BACKSLASH] x)" for x
    by (simp only: sanitizedInput_def replace_global_plain [OF plain(1)]
        replace_global_plain [OF plain(2)])
  have example: "sanitizedInput (js ''a\"b'' @ [BACKSLASH] @ js ''c'') =
      js ''a'' @ [BACKSLASH] @ js ''\"b'' @ [BACKSLASH, BACKSLASH] @ js ''c''"
    by (simp add: general escape_every_def js_def BACKSLASH_def QUOTE_def)
  show ?thesis
    using general [of input] example by (simp add: request_for_def prompt_for_def)
qed

text \<open>
  C7. With an empty selection the command shows the notice that no text is selected,
  for five seconds, and does nothing else: no request is sent, no response body is
  read, and the editor and its document stay as they were.
\<close>

theorem C7_empty_selection:
  assumes "getSelection w = []"
  shows "convertToLatex e w =
           w\<lparr>notices := notices w @
             [\<lparr>message =
                 js ''No text selected. Please select the text you want to convert to LaTeX.'',
               timeout = 5000, hidden = False\<rparr>]\<rparr>
         \<and> requests (convertToLatex e w) = requests w
         \<and> reads (convertToLatex e w) = reads w
         \<and> replaced (convertToLatex e w) = replaced w
         \<and> editor (convertToLatex e w) = editor w
         \<and> document (editor (convertToLatex e w)) = document (editor w)"
  using assms by (simp add: convertToLatex_def new_Notice_def)

theorem C7_empty_selection_witness:
  "getSelection (selecting []) = []
   \<and> requests (convertToLatex (streaming 200 []) (selecting [])) = []
   \<and> document (editor (convertToLatex (streaming 200 []) (selecting []))) = []
   \<and> map message (notices (convertToLatex (streaming 200 []) (selecting []))) =
       [js ''No text selected. Please select the text you want to convert to LaTeX.'']"
proof -
  have h: "getSelection (selecting []) = []"
    by (simp add: getSelection_def selecting_def)
  show ?thesis
    using h C7_empty_selection [OF h, of "streaming 200 []"]
    by (simp add: selecting_def document_def)
qed

text \<open>
  C9. With a non-empty selection, once the notice \<^verbatim>\<open>Converting to LaTeX...\<close> is shown
  (without a timeout), it is hidden when the command is over, however the command
  ends: the \<^verbatim>\<open>try\<close> block runs to its end; \<^verbatim>\<open>callLocalLLM\<close>,
  \<^verbatim>\<open>replaceSelection\<close> or the notice of success throws and \<^verbatim>\<open>handleError\<close> returns;
  or \<^verbatim>\<open>handleError\<close> throws and the exception leaves the command. This is for every
  answer of the server and every way the editor and the notices throw. The notices
  shown before are as they were.
\<close>

theorem C9_loading_notice_hidden:
  assumes "getSelection w \<noteq> []"
    and "Notice_throws f (js ''Converting to LaTeX...'') 0 = None"
  shows "length (notices w) < length (notices (snd (convertToLatex_throwing f e w)))
         \<and> notices (snd (convertToLatex_throwing f e w)) ! length (notices w) =
             \<lparr>message = js ''Converting to LaTeX...'', timeout = 0, hidden = True\<rparr>
         \<and> take (length (notices w)) (notices (snd (convertToLatex_throwing f e w))) =
             notices w"
proof -
  let ?n = "\<lparr>message = js ''Converting to LaTeX...'', timeout = 0, hidden = False\<rparr>"
  let ?w1 = "w\<lparr>notices := notices w @ [?n]\<rparr>"
  have shown: "new_Notice_throwing f (js ''Converting to LaTeX...'') 0 w =
      (Inr (length (notices w)), ?w1)"
    using assms(2) by (simp add: new_Notice_throwing_def new_Notice_def)
  obtain res w2 where tb: "try_block f e (getSelection w) ?w1 = (res, w2)"
    by (cases "try_block f e (getSelection w) ?w1")
  with try_block_notices [of f e "getSelection w" ?w1]
  obtain extra where n2: "notices w2 = notices w @ ?n # extra" by auto
  obtain completion w3 where tc:
    "(case res of Inl error \<Rightarrow> handleError_throwing f error w2 | Inr u \<Rightarrow> (Inr (), w2)) =
       (completion, w3)"
    by (cases "case res of Inl error \<Rightarrow> handleError_throwing f error w2 | Inr u \<Rightarrow> (Inr (), w2)")
  have "\<exists>extra'. notices w3 = notices w @ ?n # extra'"
  proof (cases res)
    case (Inl error)
    with tc handleError_throwing_notices [of f error w2] n2 show ?thesis by auto
  next
    case (Inr u)
    with tc n2 show ?thesis by auto
  qed
  then obtain extra' where n3: "notices w3 = notices w @ ?n # extra'" by blast
  have "convertToLatex_throwing f e w = (completion, hide (length (notices w)) w3)"
    using assms(1) shown tb tc
    by (simp add: convertToLatex_throwing_def split: sum.splits)
  with hide_shown [OF n3] show ?thesis
    by (simp add: nth_append)
qed

lemma error_notice_throws_example:
  "fst (convertToLatex_throwing error_notice_throws (streaming 500 []) (selecting (js ''x''))) =
     Inl (Error (js ''no notice''))"
proof -
  have s: "getSelection (selecting (js ''x'')) \<noteq> []"
    by (simp add: getSelection_def selecting_def js_def)
  have c: "\<not> (200 \<le> (500::nat) \<and> (500::nat) \<le> 299)" by simp
  show ?thesis
    using s
    by (simp add: convertToLatex_throwing_def new_Notice_throwing_def new_Notice_def
        error_notice_throws_def try_block_def handleError_throwing_def
        streaming_not_ok [OF c])
qed

lemma editor_throws_example:
  "fst (convertToLatex_throwing editor_throws (streaming 200 integral_stream)
          (selecting (js ''x''))) = Inr ()
   \<and> document (editor (snd (convertToLatex_throwing editor_throws
          (streaming 200 integral_stream) (selecting (js ''x''))))) = js ''x''
   \<and> map message (notices (snd (convertToLatex_throwing editor_throws
          (streaming 200 integral_stream) (selecting (js ''x''))))) =
       [js ''Converting to LaTeX...'', errorMessage (Error (js ''read only''))]"
proof -
  let ?w1 = "(selecting (js ''x''))\<lparr>notices := notices (selecting (js ''x'')) @
      [\<lparr>message = js ''Converting to LaTeX...'', timeout = 0, hidden = False\<rparr>]\<rparr>"
  have s: "getSelection (selecting (js ''x'')) = js ''x''" "js ''x'' \<noteq> []"
    by (simp_all add: getSelection_def selecting_def js_def)
  obtain res w2 where call:
    "callLocalLLM (streaming 200 integral_stream) (js ''x'') ?w1 = (res, w2)"
    by (cases "callLocalLLM (streaming 200 integral_stream) (js ''x'') ?w1")
  with streaming_plain [OF integral_plain, of "js ''x''" ?w1]
  have res: "res = Inr (expected_text integral_stream)" by simp
  have "only_logs (?w1\<lparr>requests := requests ?w1 @ [request_for (settings ?w1) (js ''x'')]\<rparr>) w2"
    using callLocalLLM_world [of ?w1 "js ''x''" "streaming 200 integral_stream"] call by simp
  then have w2: "notices w2 = notices ?w1" "editor w2 = editor (selecting (js ''x''))"
    by (simp_all add: only_logs_def)
  show ?thesis
    using s call res w2
    by (simp add: convertToLatex_throwing_def new_Notice_throwing_def new_Notice_def
        editor_throws_def try_block_def replaceSelection_throwing_def
        handleError_throwing_def console_error_def hide_def selecting_def document_def)
qed

theorem C9_loading_notice_hidden_witness:
  "fst (convertToLatex_throwing error_notice_throws (streaming 500 []) (selecting (js ''x''))) =
     Inl (Error (js ''no notice''))
   \<and> notices (snd (convertToLatex_throwing error_notice_throws (streaming 500 [])
        (selecting (js ''x'')))) ! 0 =
       \<lparr>message = js ''Converting to LaTeX...'', timeout = 0, hidden = True\<rparr>
   \<and> fst (convertToLatex_throwing editor_throws (streaming 200 integral_stream)
        (selecting (js ''x''))) = Inr ()
   \<and> notices (snd (convertToLatex_throwing editor_throws (streaming 200 integral_stream)
        (selecting (js ''x'')))) ! 0 =
       \<lparr>message = js ''Converting to LaTeX...'', timeout = 0, hidden = True\<rparr>"
proof -
  have s: "getSelection (selecting (js ''x'')) \<noteq> []"
    by (simp add: getSelection_def selecting_def js_def)
  have a: "Notice_throws error_notice_throws (js ''Converting to LaTeX...'') 0 = None"
    by (simp add: error_notice_throws_def)
  have b: "Notice_throws editor_throws (js ''Converting to LaTeX...'') 0 = None"
    by (simp add: editor_throws_def)
  have n: "length (notices (selecting (js ''x''))) = 0"
    by (simp add: selecting_def)
  show ?thesis
    using C9_loading_notice_hidden [OF s a, of "streaming 500 []"]
      C9_loading_notice_hidden [OF s b, of "streaming 200 integral_stream"]
      error_notice_throws_example editor_throws_example
    by (simp only: n)
qed

text \<open>
  C6. When the response has a status outside 200 to 299, \<^verbatim>\<open>callLocalLLM\<close> throws an
  \<^verbatim>\<open>Error\<close> whose message ends with the status in decimal and reads nothing from
  the body; the command then reads nothing either, does not call
  \<^verbatim>\<open>replaceSelection\<close> and leaves the editor as it was.
\<close>


theorem C6_http_status:
  assumes "fetch e (request_for (settings w) input) = Resolved r" and "\<not> ok r"
  shows "fst (callLocalLLM e input w) =
           Inl (Error (js ''HTTP error! status: '' @ decimal (status r)))
         \<and> str_includes (js ''HTTP error! status: '' @ decimal (status r)) (decimal (status r))
         \<and> reads (snd (callLocalLLM e input w)) = reads w
         \<and> (getSelection w = input \<and> input \<noteq> [] \<longrightarrow>
              reads (convertToLatex e w) = reads w
              \<and> replaced (convertToLatex e w) = replaced w
              \<and> editor (convertToLatex e w) = editor w)"
proof -
  have call: "fst (callLocalLLM e input w) =
      Inl (Error (js ''HTTP error! status: '' @ decimal (status r)))"
    and rd: "reads (snd (callLocalLLM e input w)) = reads w"
    by (simp_all add: callLocalLLM_not_ok [OF assms] console_error_def)
  have "reads (convertToLatex e w) = reads w
        \<and> replaced (convertToLatex e w) = replaced w
        \<and> editor (convertToLatex e w) = editor w"
    if sel: "getSelection w = input" "input \<noteq> []"
  proof -
    let ?w1 = "w\<lparr>notices := notices w @
      [\<lparr>message = js ''Converting to LaTeX...'', timeout = 0, hidden = False\<rparr>]\<rparr>"
    have f: "fetch e (request_for (settings ?w1) input) = Resolved r"
      using assms(1) by simp
    have "reads (convertToLatex e w) = reads w"
      using sel
      by (simp add: convertToLatex_def new_Notice_def callLocalLLM_not_ok [OF f assms(2)]
          handleError_def console_error_def hide_def)
    moreover have "replaced (convertToLatex e w) = replaced w \<and> editor (convertToLatex e w) = editor w"
      using convertToLatex_fails [of w e] call sel by simp
    ultimately show ?thesis by simp
  qed
  with call rd show ?thesis by (simp add: str_includes_suffix)
qed

theorem C6_http_status_witness:
  "fetch (streaming 500 [ascii ''{}'']) (request_for (settings (selecting (js ''x''))) (js ''x'')) =
     Resolved \<lparr>status = 500, body = Some \<lparr>chunks = [ascii ''{}''], failure = None\<rparr>\<rparr>
   \<and> \<not> ok \<lparr>status = 500, body = Some \<lparr>chunks = [ascii ''{}''], failure = None\<rparr>\<rparr>
   \<and> fst (callLocalLLM (streaming 500 [ascii ''{}'']) (js ''x'') (selecting (js ''x''))) =
       Inl (Error (js ''HTTP error! status: 500''))
   \<and> reads (convertToLatex (streaming 500 [ascii ''{}'']) (selecting (js ''x''))) = 0
   \<and> replaced (convertToLatex (streaming 500 [ascii ''{}'']) (selecting (js ''x''))) = []
   \<and> document (editor (convertToLatex (streaming 500 [ascii ''{}'']) (selecting (js ''x'')))) = js ''x''"
proof -
  let ?r = "\<lparr>status = 500, body = Some \<lparr>chunks = [ascii ''{}''], failure = None\<rparr>\<rparr>"
  have f: "fetch (streaming 500 [ascii ''{}'']) (request_for (settings (selecting (js ''x''))) (js ''x'')) =
     Resolved ?r"
    by (simp add: streaming_def answering_def)
  have n: "\<not> ok ?r" by (simp add: ok_def)
  have d: "decimal 500 = js ''500''" by code_simp
  have s: "getSelection (selecting (js ''x'')) = js ''x''" "js ''x'' \<noteq> []"
    by (simp_all add: getSelection_def selecting_def js_def)
  show ?thesis
    using f n s C6_http_status [OF f n]
    by (simp add: d js_append [symmetric] selecting_def document_def del: js_Nil)
qed

text \<open>
  C2, as the code has it. The lines are those of each read: when the response is read
  and the text of some read has a line that is not blank and is not JSON,
  \<^verbatim>\<open>callLocalLLM\<close> throws the \<^verbatim>\<open>Error\<close> that says the response could not be parsed,
  whatever the lines before it gave; the command then does not call
  \<^verbatim>\<open>replaceSelection\<close> and the document is as it was.
\<close>

theorem C2_unparsable_line:
  assumes "fetch e (request_for (settings w) input) = Resolved r" and "ok r"
    and "body r = Some b" and "v \<in> set (chunks b)"
    and "line \<in> set (split_on LF (TextDecoder_decode v))" and "trim line \<noteq> []"
    and "JSON_parse line = Inl SyntaxError"
  shows "fst (callLocalLLM e input w) =
           Inl (Error (js ''Failed to parse response from Ollama''))
         \<and> (getSelection w = input \<and> input \<noteq> [] \<longrightarrow>
              replaced (convertToLatex e w) = replaced w
              \<and> editor (convertToLatex e w) = editor w
              \<and> document (editor (convertToLatex e w)) = document (editor w))"
proof -
  from assms(5,6) have parsed: "line \<in> set (lines_of v)" by (simp add: lines_of_def)
  from assms(7) have "line_throws line" by (rule line_throws_SyntaxError)
  with assms(4) parsed
  have "\<exists>v\<in>set (chunks b). \<exists>line\<in>set (lines_of v). line_throws line"
    by blast
  with callLocalLLM_stream [OF assms(1-3)]
  have call: "fst (callLocalLLM e input w) = Inl parse_failure" by simp
  then show ?thesis
    using convertToLatex_fails [of w e parse_failure]
    by (auto simp: parse_failure_def)
qed

lemma not_json_split:
  "split_on LF (TextDecoder_decode (ascii ''not-json'' @ [10])) = [js ''not-json'', []]"
  by code_simp

lemma not_json_not_blank: "trim (js ''not-json'') \<noteq> []"
  by code_simp

lemma not_json_parse: "JSON_parse (js ''not-json'') = Inl SyntaxError"
  by code_simp

theorem C2_unparsable_line_witness:
  "fst (callLocalLLM
         (streaming 200 [ascii ''{\"response\":\"ab\"}'' @ [10], ascii ''not-json'' @ [10]])
         (js ''x'') (selecting (js ''x''))) =
     Inl (Error (js ''Failed to parse response from Ollama''))
   \<and> replaced (convertToLatex
         (streaming 200 [ascii ''{\"response\":\"ab\"}'' @ [10], ascii ''not-json'' @ [10]])
         (selecting (js ''x''))) = []
   \<and> document (editor (convertToLatex
         (streaming 200 [ascii ''{\"response\":\"ab\"}'' @ [10], ascii ''not-json'' @ [10]])
         (selecting (js ''x'')))) = js ''x''"
proof -
  let ?vs = "[ascii ''{\"response\":\"ab\"}'' @ [10], ascii ''not-json'' @ [10]]"
  let ?b = "\<lparr>chunks = ?vs, failure = None\<rparr>"
  let ?r = "\<lparr>status = 200, body = Some ?b\<rparr>"
  have f: "fetch (streaming 200 ?vs) (request_for (settings (selecting (js ''x''))) (js ''x'')) =
      Resolved ?r"
    by (simp add: streaming_def answering_def)
  have o: "ok ?r" by (simp add: ok_def)
  have b: "body ?r = Some ?b" by simp
  have v: "ascii ''not-json'' @ [10] \<in> set (chunks ?b)" by simp
  have l: "js ''not-json'' \<in> set (split_on LF (TextDecoder_decode (ascii ''not-json'' @ [10])))"
    by (simp add: not_json_split)
  have s: "getSelection (selecting (js ''x'')) = js ''x''" "js ''x'' \<noteq> []"
    by (simp_all add: getSelection_def selecting_def js_def)
  show ?thesis
    using C2_unparsable_line [OF f o b v l not_json_not_blank not_json_parse] s
    by (simp add: selecting_def document_def)
qed

lemma glued_stream_line:
  "lines_of (concat glued_stream) = [js ''{\"response\":\"a\"}{\"response\":\"b\"}'']"
  by code_simp

lemma glued_line_parse:
  "JSON_parse (js ''{\"response\":\"a\"}{\"response\":\"b\"}'') = Inl SyntaxError"
  by code_simp

lemma glued_stream_plain: "list_all (\<lambda>v. list_all plain_line (lines_of v)) glued_stream"
  by code_simp

lemma glued_stream_text: "expected_text glued_stream = js ''ab''"
  by code_simp

text \<open>
  The claim as stated speaks of every stream that holds a line that is not JSON. The
  body \<^verbatim>\<open>{"response":"a"}{"response":"b"}\<close> is one such line; read in two pieces, the
  boundary between the objects, each piece is JSON, the call returns \<^verbatim>\<open>ab\<close> and the
  command puts it in the document.
\<close>

theorem C2_glued_objects_counterexample:
  "lines_of (concat glued_stream) = [js ''{\"response\":\"a\"}{\"response\":\"b\"}'']
   \<and> JSON_parse (js ''{\"response\":\"a\"}{\"response\":\"b\"}'') = Inl SyntaxError
   \<and> fst (callLocalLLM (streaming 200 glued_stream) (js ''x'') (selecting (js ''x''))) =
       Inr (js ''ab'')
   \<and> replaced (convertToLatex (streaming 200 glued_stream) (selecting (js ''x''))) =
       [js ''ab'']
   \<and> document (editor (convertToLatex (streaming 200 glued_stream) (selecting (js ''x'')))) =
       js ''ab''"
proof -
  have s: "getSelection (selecting (js ''x'')) = js ''x''" "js ''x'' \<noteq> []"
    by (simp_all add: getSelection_def selecting_def js_def)
  have call: "fst (callLocalLLM (streaming 200 glued_stream) (js ''x'') (selecting (js ''x''))) =
      Inr (js ''ab'')"
    using streaming_plain [OF glued_stream_plain] by (simp only: glued_stream_text)
  have "replaced (convertToLatex (streaming 200 glued_stream) (selecting (js ''x''))) =
        replaced (selecting (js ''x'')) @ [js ''ab'']
      \<and> editor (convertToLatex (streaming 200 glued_stream) (selecting (js ''x''))) =
        (editor (selecting (js ''x'')))\<lparr>text_before :=
           text_before (editor (selecting (js ''x''))) @ js ''ab'', selection := []\<rparr>"
    using convertToLatex_succeeds [of "selecting (js ''x'')" "streaming 200 glued_stream" "js ''ab''"]
      s call
    by simp
  then have "replaced (convertToLatex (streaming 200 glued_stream) (selecting (js ''x''))) =
        [js ''ab'']"
    and "document (editor (convertToLatex (streaming 200 glued_stream) (selecting (js ''x'')))) =
        js ''ab''"
    by (simp_all add: selecting_def document_def)
  with call glued_stream_line glued_line_parse show ?thesis
    by (simp only: simp_thms)
qed

text \<open>
  C8. \<^verbatim>\<open>handleError\<close> shows one notice, for ten seconds, with a message chosen by the
  first test that succeeds: an \<^verbatim>\<open>Error\<close> whose message contains \<^verbatim>\<open>HTTP error\<close> gives
  the message about connecting, which names \<^verbatim>\<open>http://localhost:11434\<close>; otherwise one
  that contains \<^verbatim>\<open>Failed to parse response\<close> gives the message about an invalid
  response; otherwise one that contains \<^verbatim>\<open>Unable to read response\<close> gives the message
  about an interrupted connection; any other \<^verbatim>\<open>Error\<close> has its message put after
  \<^verbatim>\<open>Error converting to LaTeX:\<close>; and a thrown value that is not an \<^verbatim>\<open>Error\<close> gives
  the fixed message.
\<close>

theorem C8_handleError:
  "notices (handleError err w) =
     notices w @ [\<lparr>message = errorMessage err, timeout = 10000, hidden = False\<rparr>]
   \<and> (str_includes msg (js ''HTTP error'') \<longrightarrow>
        errorMessage (Error msg) =
          js (''Failed to connect to Ollama. Please ensure Ollama is running and '' @
              ''accessible at http://localhost:11434. Error: '') @ msg
        \<and> str_includes (errorMessage (Error msg)) (js ''http://localhost:11434''))
   \<and> (\<not> str_includes msg (js ''HTTP error'')
        \<and> str_includes msg (js ''Failed to parse response'') \<longrightarrow>
        errorMessage (Error msg) =
          js (''Received an invalid response from Ollama. The model might be '' @
              ''having issues. Error: '') @ msg)
   \<and> (\<not> str_includes msg (js ''HTTP error'')
        \<and> \<not> str_includes msg (js ''Failed to parse response'')
        \<and> str_includes msg (js ''Unable to read response'') \<longrightarrow>
        errorMessage (Error msg) =
          js (''Failed to read the response from Ollama. The connection might '' @
              ''have been interrupted. Error: '') @ msg)
   \<and> (\<not> str_includes msg (js ''HTTP error'')
        \<and> \<not> str_includes msg (js ''Failed to parse response'')
        \<and> \<not> str_includes msg (js ''Unable to read response'') \<longrightarrow>
        errorMessage (Error msg) = js ''Error converting to LaTeX: '' @ msg)
   \<and> errorMessage (NonError x) =
       js ''An unexpected error occurred while converting to LaTeX.''"
proof -
  have shown: "notices (handleError err w) =
      notices w @ [\<lparr>message = errorMessage err, timeout = 10000, hidden = False\<rparr>]"
    by (simp add: handleError_def new_Notice_def console_error_def)
  have endpoint: "str_includes (errorMessage (Error msg)) (js ''http://localhost:11434'')"
    if "str_includes msg (js ''HTTP error'')"
  proof -
    have "errorMessage (Error msg) =
        js (''Failed to connect to Ollama. Please ensure Ollama is running and '' @
            ''accessible at '') @ js ''http://localhost:11434'' @ (js ''. Error: '' @ msg)"
      using that by (simp add: errorMessage_def js_def)
    then show ?thesis by (simp only: str_includes_append)
  qed
  show ?thesis
    using shown endpoint by (simp add: errorMessage_def)
qed

lemma marker_http: "str_includes (js ''HTTP error! status: 500'') (js ''HTTP error'')"
  by code_simp

lemma marker_both:
  "str_includes (js ''HTTP error: Failed to parse response'') (js ''HTTP error'')"
  by code_simp

lemma marker_parse:
  "\<not> str_includes (js ''Failed to parse response from Ollama'') (js ''HTTP error'')
   \<and> str_includes (js ''Failed to parse response from Ollama'') (js ''Failed to parse response'')"
  by code_simp

lemma marker_read:
  "\<not> str_includes (js ''Unable to read response from Ollama'') (js ''HTTP error'')
   \<and> \<not> str_includes (js ''Unable to read response from Ollama'') (js ''Failed to parse response'')
   \<and> str_includes (js ''Unable to read response from Ollama'') (js ''Unable to read response'')"
  by code_simp

lemma marker_none:
  "\<not> str_includes (js ''Failed to fetch'') (js ''HTTP error'')
   \<and> \<not> str_includes (js ''Failed to fetch'') (js ''Failed to parse response'')
   \<and> \<not> str_includes (js ''Failed to fetch'') (js ''Unable to read response'')"
  by code_simp

theorem C8_handleError_witness:
  "errorMessage (Error (js ''HTTP error! status: 500'')) =
     js (''Failed to connect to Ollama. Please ensure Ollama is running and '' @
         ''accessible at http://localhost:11434. Error: HTTP error! status: 500'')
   \<and> errorMessage (Error (js ''HTTP error: Failed to parse response'')) =
     js (''Failed to connect to Ollama. Please ensure Ollama is running and '' @
         ''accessible at http://localhost:11434. Error: HTTP error: Failed to parse response'')
   \<and> errorMessage (Error (js ''Failed to parse response from Ollama'')) =
     js (''Received an invalid response from Ollama. The model might be '' @
         ''having issues. Error: Failed to parse response from Ollama'')
   \<and> errorMessage (Error (js ''Unable to read response from Ollama'')) =
     js (''Failed to read the response from Ollama. The connection might '' @
         ''have been interrupted. Error: Unable to read response from Ollama'')
   \<and> errorMessage (Error (js ''Failed to fetch'')) = js ''Error converting to LaTeX: Failed to fetch''
   \<and> map message (notices (handleError (NonError (js ''42'')) (selecting []))) =
     [js ''An unexpected error occurred while converting to LaTeX.'']"
proof -
  note C8 = C8_handleError [of "NonError (js ''42'')" "selecting []" _ "js ''42''"]
  have a: "errorMessage (Error (js ''HTTP error! status: 500'')) =
     js (''Failed to connect to Ollama. Please ensure Ollama is running and '' @
         ''accessible at http://localhost:11434. Error: '') @ js ''HTTP error! status: 500''"
    using C8 [of "js ''HTTP error! status: 500''"] marker_http by blast
  have b: "errorMessage (Error (js ''HTTP error: Failed to parse response'')) =
     js (''Failed to connect to Ollama. Please ensure Ollama is running and '' @
         ''accessible at http://localhost:11434. Error: '') @ js ''HTTP error: Failed to parse response''"
    using C8 [of "js ''HTTP error: Failed to parse response''"] marker_both by blast
  have c: "errorMessage (Error (js ''Failed to parse response from Ollama'')) =
     js (''Received an invalid response from Ollama. The model might be '' @
         ''having issues. Error: '') @ js ''Failed to parse response from Ollama''"
    using C8 [of "js ''Failed to parse response from Ollama''"] marker_parse by blast
  have d: "errorMessage (Error (js ''Unable to read response from Ollama'')) =
     js (''Failed to read the response from Ollama. The connection might '' @
         ''have been interrupted. Error: '') @ js ''Unable to read response from Ollama''"
    using C8 [of "js ''Unable to read response from Ollama''"] marker_read by blast
  have e: "errorMessage (Error (js ''Failed to fetch'')) =
     js ''Error converting to LaTeX: '' @ js ''Failed to fetch''"
    using C8 [of "js ''Failed to fetch''"] marker_none by blast
  have f: "map message (notices (handleError (NonError (js ''42'')) (selecting []))) =
     [js ''An unexpected error occurred while converting to LaTeX.'']"
    using C8 [of "[]"] by (simp add: selecting_def)
  show ?thesis
    unfolding a b c d e f by (simp add: js_append [symmetric] del: js_Nil)
qed

text \<open>
  C10, as the code has it. A line that parses to \<^verbatim>\<open>null\<close> makes the property access
  throw: the handler logs it and throws the same \<^verbatim>\<open>Error\<close> as for a line that is
  not JSON, and a stream that holds such a line makes \<^verbatim>\<open>callLocalLLM\<close> throw it. A
  line that parses to any other value (a number, a string, a boolean, an array, or an
  object whose \<^verbatim>\<open>response\<close> is missing or is rejected by the condition of the
  \<^verbatim>\<open>if\<close>) adds nothing to the text so far and does not fail.
\<close>

theorem C10_null_throws_other_values_pass:
  "(JSON_parse line = Inr JNull \<longrightarrow>
      handle_line e line acc w =
        (Inl (Error (js ''Failed to parse response from Ollama'')),
         console_error (js ''Error parsing JSON:'') w)
      \<and> (JSON_parse bad = Inl SyntaxError \<longrightarrow>
           handle_line e line acc w = handle_line e bad acc w)
      \<and> (fetch e (request_for (settings w) input) = Resolved r \<and> ok r \<and> body r = Some b
           \<and> v \<in> set (chunks b) \<and> line \<in> set (lines_of v) \<longrightarrow>
           fst (callLocalLLM e input w) =
             Inl (Error (js ''Failed to parse response from Ollama''))))
   \<and> (JSON_parse line = Inr d \<and> d \<noteq> JNull
       \<and> (\<forall>ms x. d = JObj ms \<and> map_of (rev ms) (js ''response'') = Some x \<longrightarrow> \<not> truthy x)
       \<longrightarrow> handle_line e line acc w = (Inr acc, w))"
proof -
  have null: "handle_line e line acc w =
        (Inl (Error (js ''Failed to parse response from Ollama'')),
         console_error (js ''Error parsing JSON:'') w)"
    if "JSON_parse line = Inr JNull"
    using handle_line_throws [OF line_throws_null [OF that]] by (simp add: parse_failure_def)
  have same: "handle_line e line acc w = handle_line e bad acc w"
    if "JSON_parse line = Inr JNull" "JSON_parse bad = Inl SyntaxError"
    using that
    by (simp add: handle_line_throws line_throws_null line_throws_SyntaxError)
  have abort: "fst (callLocalLLM e input w) =
        Inl (Error (js ''Failed to parse response from Ollama''))"
    if "JSON_parse line = Inr JNull" "fetch e (request_for (settings w) input) = Resolved r"
      "ok r" "body r = Some b" "v \<in> set (chunks b)" "line \<in> set (lines_of v)"
  proof -
    from that(1) have "line_throws line" by (rule line_throws_null)
    with that(5,6) have "\<exists>v\<in>set (chunks b). \<exists>line\<in>set (lines_of v). line_throws line"
      by blast
    with callLocalLLM_stream [OF that(2-4)] show ?thesis
      by (simp add: parse_failure_def)
  qed
  have pass: "handle_line e line acc w = (Inr acc, w)"
    if "JSON_parse line = Inr d" "d \<noteq> JNull"
      "\<forall>ms x. d = JObj ms \<and> map_of (rev ms) (js ''response'') = Some x \<longrightarrow> \<not> truthy x"
    using that by (cases d) (auto simp: handle_line_def split: option.splits)
  show ?thesis
    using null same abort pass by blast
qed

theorem C10_null_throws_other_values_pass_witness:
  "JSON_parse (js ''null'') = Inr JNull
   \<and> handle_line (streaming 200 [ascii ''null'']) (js ''null'') (js ''ab'') (selecting (js ''x'')) =
       (Inl (Error (js ''Failed to parse response from Ollama'')),
        console_error (js ''Error parsing JSON:'') (selecting (js ''x'')))
   \<and> fst (callLocalLLM (streaming 200 [ascii ''null'']) (js ''x'') (selecting (js ''x''))) =
       Inl (Error (js ''Failed to parse response from Ollama''))
   \<and> JSON_parse (js ''{\"response\":\"\"}'') = Inr (JObj [(js ''response'', JStr [])])
   \<and> handle_line (streaming 200 [ascii ''null'']) (js ''{\"response\":\"\"}'') (js ''ab'')
         (selecting (js ''x'')) =
       (Inr (js ''ab''), selecting (js ''x''))"
proof -
  let ?e = "streaming 200 [ascii ''null'']"
  let ?w = "selecting (js ''x'')"
  let ?r = "\<lparr>status = 200, body = Some \<lparr>chunks = [ascii ''null''], failure = None\<rparr>\<rparr>"
  have f: "fetch ?e (request_for (settings ?w) (js ''x'')) = Resolved ?r"
    by (rule streaming_fetch)
  have o: "ok ?r" by (simp add: ok_def)
  have l: "js ''null'' \<in> set (lines_of (ascii ''null''))" by (simp add: lines_null)
  have falsy: "\<forall>ms x. JObj [(js ''response'', JStr [])] = JObj ms
      \<and> map_of (rev ms) (js ''response'') = Some x \<longrightarrow> \<not> truthy x"
    by auto
  show ?thesis
    using C10_null_throws_other_values_pass
      [of "js ''null''" ?e "js ''ab''" ?w "js ''not-json''" "js ''x''" ?r
        "\<lparr>chunks = [ascii ''null''], failure = None\<rparr>" "ascii ''null''" JNull]
      C10_null_throws_other_values_pass
      [of "js ''{\"response\":\"\"}''" ?e "js ''ab''" ?w "js ''not-json''" "js ''x''" ?r
        "\<lparr>chunks = [ascii ''null''], failure = None\<rparr>" "ascii ''null''"
        "JObj [(js ''response'', JStr [])]"]
      parse_null parse_empty_response f o l falsy
    by simp
qed

text \<open>
  The claim as stated says that every line that is valid JSON but not an object makes
  the access throw. The line \<^verbatim>\<open>5\<close> is such a line, and the call returns.
\<close>

theorem C10_number_line_counterexample:
  "lines_of (ascii ''5'') = [js ''5'']
   \<and> JSON_parse (js ''5'') = Inr (JNum 5 0)
   \<and> fst (callLocalLLM (streaming 200 [ascii ''5'']) (js ''x'') (selecting (js ''x''))) = Inr []"
proof -
  let ?r = "\<lparr>status = 200, body = Some \<lparr>chunks = [ascii ''5''], failure = None\<rparr>\<rparr>"
  have f: "fetch (streaming 200 [ascii ''5'']) (request_for (settings (selecting (js ''x''))) (js ''x'')) =
      Resolved ?r"
    by (rule streaming_fetch)
  have o: "ok ?r" by (simp add: ok_def)
  have t: "\<not> line_throws (js ''5'')"
    by (simp add: line_throws_def parse_number)
  have c: "contribution num (js ''5'') = []" for num
    by (simp add: contribution_def parse_number)
  have "fst (callLocalLLM (streaming 200 [ascii ''5'']) (js ''x'') (selecting (js ''x''))) = Inr []"
    using callLocalLLM_stream [OF f o, of "\<lparr>chunks = [ascii ''5''], failure = None\<rparr>"]
    by (simp add: lines_number t c trim_def)
  then show ?thesis by (simp add: lines_number parse_number)
qed


text \<open>
  C1, as the code has it. The lines are those of each read. For a non-empty input, a
  response with a status from 200 to 299 and a body that is read to its end, where in
  the text of every read every line that is not blank is a JSON value other than
  \<^verbatim>\<open>null\<close> whose \<^verbatim>\<open>response\<close>, where it has one, is a string or is rejected by the
  condition of the \<^verbatim>\<open>if\<close>: \<^verbatim>\<open>callLocalLLM\<close> returns the \<^verbatim>\<open>response\<close> strings of all
  these lines, in the order the chunks arrive and the lines stand in them, blank lines
  left out, trimmed at both ends; and the command puts that text in place of the
  selection.
\<close>

theorem C1_accumulated_text:
  assumes "input \<noteq> []"
    and "fetch e (request_for (settings w) input) = Resolved r" and "ok r"
    and "body r = Some b" and "failure b = None"
    and "\<forall>v\<in>set (chunks b). \<forall>line\<in>set (split_on LF (TextDecoder_decode v)).
           trim line \<noteq> [] \<longrightarrow> plain_line line"
  shows "fst (callLocalLLM e input w) = Inr (expected_text (chunks b))
         \<and> (getSelection w = input \<longrightarrow>
              replaced (convertToLatex e w) = replaced w @ [expected_text (chunks b)]
              \<and> document (editor (convertToLatex e w)) =
                  text_before (editor w) @ expected_text (chunks b) @ text_after (editor w))"
proof -
  from assms(6) have plain: "\<forall>v\<in>set (chunks b). \<forall>line\<in>set (lines_of v). plain_line line"
    by (simp add: lines_of_def)
  then have none: "\<not> (\<exists>v\<in>set (chunks b). \<exists>line\<in>set (lines_of v). line_throws line)"
    using plain_line_returns by blast
  have "\<forall>line\<in>set (concat (map lines_of (chunks b))). plain_line line"
    using plain by auto
  then have eq: "map (contribution (numberToString e)) (concat (map lines_of (chunks b))) =
      map response_text (concat (map lines_of (chunks b)))"
    by (simp add: plain_line_contribution)
  have "fst (callLocalLLM e input w) =
      Inr (trim (concat (map (contribution (numberToString e))
                          (concat (map lines_of (chunks b))))))"
    using callLocalLLM_stream [OF assms(2-4)] none assms(5) by simp
  also have "\<dots> = Inr (expected_text (chunks b))"
    by (subst eq) (simp only: expected_text_def lines_of_concat)
  finally have call: "fst (callLocalLLM e input w) = Inr (expected_text (chunks b))" .
  then show ?thesis
    using assms(1) convertToLatex_succeeds [of w e "expected_text (chunks b)"]
    by (auto simp: document_def)
qed

theorem C1_accumulated_text_witness:
  "fst (callLocalLLM (streaming 200 integral_stream)
         (js ''the integral of x squared'') (selecting (js ''the integral of x squared''))) =
     Inr integral_latex
   \<and> document (editor (convertToLatex (streaming 200 integral_stream)
         (selecting (js ''the integral of x squared'')))) = integral_latex"
proof -
  let ?b = "\<lparr>chunks = integral_stream, failure = None\<rparr>"
  let ?r = "\<lparr>status = 200, body = Some ?b\<rparr>"
  let ?sel = "js ''the integral of x squared''"
  have i: "?sel \<noteq> []" by (simp add: js_def)
  have f: "fetch (streaming 200 integral_stream) (request_for (settings (selecting ?sel)) ?sel) =
      Resolved ?r"
    by (rule streaming_fetch)
  have o: "ok ?r" by (simp add: ok_def)
  have b: "body ?r = Some ?b" by simp
  have n: "failure ?b = None" by simp
  have p: "\<forall>v\<in>set (chunks ?b). \<forall>line\<in>set (split_on LF (TextDecoder_decode v)).
      trim line \<noteq> [] \<longrightarrow> plain_line line"
    using integral_plain by (simp add: list_all_iff lines_of_def)
  have s: "getSelection (selecting ?sel) = ?sel"
    by (simp add: getSelection_def selecting_def)
  show ?thesis
    using C1_accumulated_text [OF i f o b n p] s
    by (simp add: integral_text selecting_def)
qed

text \<open>
  The claim as stated asks only that every line that is not blank be valid JSON. The
  line \<^verbatim>\<open>null\<close> is valid JSON, and the call throws.
\<close>

theorem C1_null_line_counterexample:
  "js ''x'' \<noteq> []
   \<and> ok \<lparr>status = 200, body = Some \<lparr>chunks = [ascii ''null''], failure = None\<rparr>\<rparr>
   \<and> lines_of (ascii ''null'') = [js ''null'']
   \<and> JSON_parse (js ''null'') = Inr JNull
   \<and> fst (callLocalLLM (streaming 200 [ascii ''null'']) (js ''x'') (selecting (js ''x''))) =
       Inl (Error (js ''Failed to parse response from Ollama''))"
proof -
  let ?r = "\<lparr>status = 200, body = Some \<lparr>chunks = [ascii ''null''], failure = None\<rparr>\<rparr>"
  have f: "fetch (streaming 200 [ascii ''null'']) (request_for (settings (selecting (js ''x''))) (js ''x'')) =
      Resolved ?r"
    by (rule streaming_fetch)
  have o: "ok ?r" by (simp add: ok_def)
  have t: "line_throws (js ''null'')"
    by (rule line_throws_null) (rule parse_null)
  have "fst (callLocalLLM (streaming 200 [ascii ''null'']) (js ''x'') (selecting (js ''x''))) =
      Inl parse_failure"
    using callLocalLLM_stream [OF f o, of "\<lparr>chunks = [ascii ''null''], failure = None\<rparr>"]
    by (simp add: lines_null t)
  moreover have "js ''x'' \<noteq> []" by (simp add: js_def)
  ultimately show ?thesis
    using o by (simp add: lines_null parse_null parse_failure_def)
qed


text \<open>
  C4. The sanitised input is the replacement argument of \<^verbatim>\<open>String.prototype.replace\<close>,
  where a dollar sign has a meaning. With the default settings and the selection
  \<^verbatim>\<open>$$\<close> the prompt has one dollar sign between the quotes, where putting the
  sanitised input in place of the placeholder would give two; with the selection
  \<^verbatim>\<open>$&\<close> the prompt is the template itself, placeholder included.
\<close>

theorem C4_dollar_in_selection:
  "sanitizedInput (js ''$$'') = js ''$$''
   \<and> prompt_for DEFAULT_SETTINGS (js ''$$'') =
       js (''Convert the following natural language to a LaTeX equation, '' @
           ''output ONLY THE EQUATION AND NOTHING ELSE: \"$\". '' @
           ''Output should be in this format: ${output}$'')
   \<and> substitute_first (llmPrompt DEFAULT_SETTINGS) (js ''{input}'') (sanitizedInput (js ''$$'')) =
       js (''Convert the following natural language to a LaTeX equation, '' @
           ''output ONLY THE EQUATION AND NOTHING ELSE: \"$$\". '' @
           ''Output should be in this format: ${output}$'')
   \<and> prompt_for DEFAULT_SETTINGS (js ''$&'') = llmPrompt DEFAULT_SETTINGS"
  by code_simp

end
